theory Spec2Isabelle
  imports Complex_Main "HOL-Library.Sublist"
begin

section \<open>The transaction builder of src/lucid/tx.ts\<close>

text \<open>
  The class \<open>Tx\<close> keeps three fields: the engine's transaction builder
  \<open>txBuilder\<close>, the private list \<open>tasks\<close> of deferred closures, and
  the \<open>lucid\<close> handle through which every collaborator is reached. The handle never
  changes, so it is the parameter \<open>env\<close> of every operation below; the other two
  are the state that the operations pass along.
\<close>

subsection \<open>Errors\<close>

text \<open>
  Everything tx.ts throws itself is \<open>new Error(message)\<close>: an error is identified
  by its message. \<open>TypeError\<close> is what the JavaScript runtime raises when a property
  of \<open>undefined\<close> is read. \<open>External\<close> is anything thrown by a collaborator
  (the serialization engine \<open>C\<close>, \<open>lucid.utils\<close>, the wallet, the provider,
  \<open>fetch\<close>): it carries what made the collaborator throw, and a text that names the
  call or is the collaborator's message.
\<close>

datatype origin =
    Address_decoder
  | Address_kind
  | Payload_decoder
  | Builder_call
  | Collaborator

datatype error =
    Error string
  | TypeError
  | External origin string

text \<open>
  The error kinds of the specification. Those with one trigger in tx.ts are the error
  that tx.ts throws for it; \<open>UnsupportedCredentialType\<close> is the one that
  \<open>createPoolRegistration\<close> throws for an owner without a key hash.
  \<open>InvalidAddress\<close> is a kind with several triggers: the address does not decode,
  or it is of the wrong kind for the call, whether tx.ts finds that out
  (\<open>Not_a_reward_address\<close>) or a collaborator does.
\<close>

definition Not_a_reward_address :: error where
  "Not_a_reward_address = Error ''Not a reward address provided.''"

fun InvalidAddress :: "error \<Rightarrow> bool" where
  "InvalidAddress (Error m) = (m = ''Not a reward address provided.'')"
| "InvalidAddress TypeError = False"
| "InvalidAddress (External Address_decoder m) = True"
| "InvalidAddress (External Address_kind m) = True"
| "InvalidAddress (External k m) = False"

definition MixedPolicyError :: error where
  "MixedPolicyError = Error ''Only one Policy Id allowed. You can chain multiple mintAssets events together if you need to mint assets with different Policy Ids.''"

definition ConflictingDatumError :: error where
  "ConflictingDatumError = Error ''Not allowed to set asHash and inline at the same time.''"

definition UnspendableOutputError :: error where
  "UnspendableOutputError = Error ''No datum set. Script output becomes unspendable without datum.''"

definition UnsupportedCredentialType :: error where
  "UnsupportedCredentialType = Error ''Only key hashes allowed for pool owners.''"

text \<open>
  A call either returns a value and leaves a state, or throws and leaves the state it
  had reached when it threw.
\<close>

datatype ('a, 's) outcome =
    Done 'a 's
  | Thrown error 's

fun final :: "('a, 's) outcome \<Rightarrow> 's" where
  "final (Done a s) = s"
| "final (Thrown e s) = s"

text \<open>
  A program is a function from the state to an outcome; \<open>and_then\<close> runs the
  second program on the value and state the first one returned, and a throw ends both.
\<close>

type_synonym ('a, 's) prog = "'s \<Rightarrow> ('a, 's) outcome"

definition ret :: "'a \<Rightarrow> ('a, 's) prog" where
  "ret a s = Done a s"

definition throw :: "error \<Rightarrow> ('a, 's) prog" where
  "throw e s = Thrown e s"

definition and_then :: "('a, 's) prog \<Rightarrow> ('a \<Rightarrow> ('b, 's) prog) \<Rightarrow> ('b, 's) prog" where
  "and_then m f s = (case m s of Done a s' \<Rightarrow> f a s' | Thrown e s' \<Rightarrow> Thrown e s')"

text \<open>
  \<open>xs.forEach(f)\<close> and \<open>for (const x of xs)\<close> over an array that the loop
  does not change: the elements in order, ending at the first throw. \<open>map_m\<close>
  also collects what the loop body adds to a local collection.
\<close>

fun for_each :: "('a \<Rightarrow> (unit, 's) prog) \<Rightarrow> 'a list \<Rightarrow> (unit, 's) prog" where
  "for_each f [] s = Done () s"
| "for_each f (x # xs) s =
     (case f x s of Done _ s' \<Rightarrow> for_each f xs s' | Thrown e s' \<Rightarrow> Thrown e s')"

fun map_m :: "('a \<Rightarrow> ('b, 's) prog) \<Rightarrow> 'a list \<Rightarrow> ('b list, 's) prog" where
  "map_m f [] s = Done [] s"
| "map_m f (x # xs) s =
     (case f x s of
        Thrown e s' \<Rightarrow> Thrown e s'
      | Done y s' \<Rightarrow>
          (case map_m f xs s' of
             Thrown e s'' \<Rightarrow> Thrown e s''
           | Done ys s'' \<Rightarrow> Done (y # ys) s''))"

subsection \<open>Values of the domain\<close>

text \<open>
  Optional properties are \<open>option\<close>s. The source tests them by truthiness
  (\<open>if (outputData.asHash)\<close>, \<open>redeemer ? ... : undefined\<close>): a string is truthy
  when it is present and not empty.
\<close>

fun truthy :: "string option \<Rightarrow> bool" where
  "truthy None = False"
| "truthy (Some s) = (s \<noteq> [])"

text \<open>The string of a truthy property, for the branch that goes on to use it.\<close>

fun present :: "string option \<Rightarrow> string option" where
  "present None = None"
| "present (Some s) = (if s = [] then None else Some s)"

text \<open>
  An \<open>Assets\<close> object is the list of its entries in the order of \<open>Object.keys\<close>;
  quantities are bigints.
\<close>

type_synonym assets = "(string \<times> int) list"

datatype script_type = Native | PlutusV1 | PlutusV2

record script =
  script_type :: script_type
  script_body :: string

record output_data =
  asHash :: "string option"
  inline :: "string option"
  scriptRef :: "script option"

text \<open>The parameter typed \<open>Datum | OutputData\<close>: a bare string or an object.\<close>

datatype output_data_arg =
    Str string
  | Obj output_data

datatype credential_type = Key | Script

record credential =
  credential_type :: credential_type
  hash :: string

datatype address_type = Base | Enterprise | Pointer | Reward | Byron

text \<open>
  The types that tx.ts imports from \<open>types/mod.ts\<close> are given by the properties
  that tx.ts reads. This one is what \<open>getAddressDetails\<close> returns;
  \<open>address_type\<close> is its \<open>address.type\<close>.
\<close>

record address_details =
  address_type :: address_type
  paymentCredential :: "credential option"
  stakeCredential :: "credential option"

record utxo =
  txHash :: string
  outputIndex :: nat
  datumHash :: "string option"
  datum :: "string option"

datatype relay_type = SingleHostIp | SingleHostDomainName | MultiHost

record relay =
  relay_type :: relay_type
  ipV4 :: "string option"
  ipV6 :: "string option"
  port :: "nat option"
  domainName :: "string option"

text \<open>
  \<open>margin\<close> is a JavaScript number that tx.ts hands to the engine unchanged.
\<close>

record pool_params =
  poolId :: string
  vrfKeyHash :: string
  pledge :: int
  cost :: int
  margin :: real
  rewardAddress :: string
  owners :: "string list"
  relays :: "relay list"
  metadataUrl :: "string option"

record change_datum =
  datum_asHash :: "string option"
  datum_inline :: "string option"

record complete_options =
  changeAddress :: "string option"
  change_datum :: "change_datum option"
  coinSelection :: "bool option"

subsection \<open>The serialization engine, as tx.ts drives it\<close>

text \<open>
  Engine objects are kept as the arguments they were built from. A script witness is
  \<open>C.ScriptWitness.new_plutus_witness(C.PlutusWitness.new(redeemer, datum, undefined))\<close>.
\<close>

datatype script_witness = Plutus_witness string "string option"

text \<open>
  \<open>collectFrom\<close> passes \<open>(redeemer as undefined) && witness\<close>: the redeemer
  itself when it is falsy (undefined, or the empty string), the witness otherwise.
\<close>

datatype input_witness =
    W_undefined
  | W_empty_string
  | W_witness script_witness

datatype stake_credential =
    From_keyhash string
  | From_scripthash string

datatype core_datum =
    New_data_hash string
  | New_data string

datatype core_relay =
    Single_host_addr "nat option" "string option" "string option"
  | Single_host_name "nat option" string
  | Multi_host_name string

record pool_registration =
  operator :: string
  vrf :: string
  reg_pledge :: int
  reg_cost :: int
  reg_margin :: real
  reward_account :: string
  pool_owners :: "string list"
  reg_relays :: "core_relay list"
  pool_metadata :: "(string \<times> string) option"
  is_update :: bool

datatype certificate =
    Stake_delegation stake_credential string
  | Stake_registration stake_credential
  | Stake_deregistration stake_credential
  | Pool_registration pool_registration

record tx_output =
  out_address :: string
  out_value :: assets
  out_datum :: "core_datum option"
  out_script_ref :: "script option"

text \<open>The builder is the list of the calls made on \<open>this.txBuilder\<close>, oldest first.\<close>

datatype call =
    Add_plutus_data string
  | Add_reference_input utxo
  | Add_input utxo input_witness
  | Add_mint string "(string \<times> int) list" "script_witness option"
  | Add_output tx_output
  | Add_certificate certificate "script_witness option"
  | Add_withdrawal string int "script_witness option"
  | Add_inputs_from "utxo list" string
  | Balance string "core_datum option"
  | Construct "utxo list" string

text \<open>The decoders of the engine that tx.ts feeds with strings and numbers.\<close>

datatype codec =
    PlutusData
  | AssetName
  | ScriptHash
  | Ed25519KeyHash_bytes
  | Ed25519KeyHash_hex
  | Ed25519KeyHash_bech32
  | VRFKeyHash
  | Address_bech32
  | NativeScript
  | PlutusScript
  | Ipv4
  | Ipv6
  | DNSRecordAorAAAA
  | DNSRecordSRV
  | URL

datatype num_codec = BigNum | Int_from_str

text \<open>The consultations of collaborators that are awaited.\<close>

datatype io_event =
    DatumOf utxo
  | GetUtxosCore
  | WalletAddress
  | Fetch string

text \<open>
  The collaborators. tx.ts imports every one of them, so each is a parameter:
  \<^item> \<open>getAddressDetails\<close> is \<open>lucid.utils.getAddressDetails\<close>, \<open>Inl\<close> when it throws;
  \<^item> \<open>decodes k s\<close> tells whether the engine's decoder \<open>k\<close> accepts \<open>s\<close>
    (\<open>C.PlutusData.from_bytes(fromHex(s))\<close>, \<open>C.Address.from_bech32(s)\<close>, ...);
    \<open>num_ok\<close> does so for \<open>C.BigNum.from_str\<close> and \<open>C.Int.from_str\<close>,
    \<open>assetsToValue_ok\<close> for \<open>assetsToValue\<close>, \<open>utxoToCore_ok\<close> for
    \<open>utxoToCore\<close>, \<open>margin_ok\<close> for \<open>C.UnitInterval.from_float\<close>;
  \<^item> \<open>is_reward a\<close> tells whether \<open>C.RewardAddress.from_address\<close> returns an
    object for the decoded address \<open>a\<close>;
  \<^item> \<open>rejects calls c\<close> is the message with which the builder, after \<open>calls\<close>,
    throws on the call \<open>c\<close>, if it does;
  \<^item> \<open>datumOf\<close>, \<open>getUtxosCore\<close>, \<open>wallet_address\<close> and \<open>fetch\<close> are the
    awaited collaborators.
\<close>

record env =
  getAddressDetails :: "string \<Rightarrow> string + address_details"
  decodes :: "codec \<Rightarrow> string \<Rightarrow> bool"
  num_ok :: "num_codec \<Rightarrow> int \<Rightarrow> bool"
  assetsToValue_ok :: "assets \<Rightarrow> bool"
  utxoToCore_ok :: "utxo \<Rightarrow> bool"
  margin_ok :: "real \<Rightarrow> bool"
  is_reward :: "string \<Rightarrow> bool"
  rejects :: "call list \<Rightarrow> call \<Rightarrow> string option"
  datumOf :: "utxo \<Rightarrow> string + string"
  getUtxosCore :: "string + utxo list"
  wallet_address :: "string + string"
  fetch :: "string \<Rightarrow> string + string"

subsection \<open>The state of a build\<close>

text \<open>
  \<open>calls\<close> is \<open>this.txBuilder\<close>, \<open>io\<close> the trace of awaited consultations,
  \<open>objects\<close> the utxo objects of the caller, which \<open>readFrom\<close> and
  \<open>collectFrom\<close> take by reference (the position in the store) and write to, and
  \<open>user\<close> whatever else the closures handed to \<open>applyIf\<close> can reach (a shared
  log, a counter). A deferred task runs on that world and may push further tasks, which
  it returns; it cannot read \<open>this.tasks\<close>, which is private.
\<close>

record 'u world =
  calls :: "call list"
  io :: "io_event list"
  objects :: "utxo list"
  user :: 'u

codatatype 'u task =
  Task (run: "'u world \<Rightarrow> error option \<times> 'u world \<times> 'u task list")

record 'u tx =
  world :: "'u world"
  tasks :: "'u task list"

text \<open>
  The constructor: a fresh builder and an empty task list, in a world that holds no
  utxo object yet.
\<close>

definition new_tx :: "'u \<Rightarrow> 'u tx" where
  "new_tx u = \<lparr>world = \<lparr>calls = [], io = [], objects = [], user = u\<rparr>, tasks = []\<rparr>"

text \<open>A call on \<open>this.txBuilder\<close>: recorded unless the engine throws.\<close>

definition tb :: "env \<Rightarrow> call \<Rightarrow> (unit, 'u tx) prog" where
  "tb env c t =
     (case rejects env (calls (world t)) c of
        Some m \<Rightarrow> Thrown (External Builder_call m) t
      | None \<Rightarrow> Done () (t\<lparr>world := (world t)\<lparr>calls := calls (world t) @ [c]\<rparr>\<rparr>))"

text \<open>
  A decoder of the engine: returns its argument decoded, or throws. What it throws on
  an address is an address that does not decode.
\<close>

fun origin_of :: "codec \<Rightarrow> origin" where
  "origin_of Address_bech32 = Address_decoder"
| "origin_of k = Payload_decoder"

definition decode :: "env \<Rightarrow> codec \<Rightarrow> string \<Rightarrow> string \<Rightarrow> (string, 's) prog" where
  "decode env k what s =
     (if decodes env k s then ret s else throw (External (origin_of k) what))"

definition decode_num :: "env \<Rightarrow> num_codec \<Rightarrow> string \<Rightarrow> int \<Rightarrow> (int, 's) prog" where
  "decode_num env k what n =
     (if num_ok env k n then ret n else throw (External Payload_decoder what))"

text \<open>An awaited collaborator: the consultation is traced, then it answers or throws.\<close>

definition await :: "io_event \<Rightarrow> string + 'a \<Rightarrow> ('a, 'u tx) prog" where
  "await ev r t =
     (let t' = t\<lparr>world := (world t)\<lparr>io := io (world t) @ [ev]\<rparr>\<rparr>
      in case r of Inl m \<Rightarrow> Thrown (External Collaborator m) t' | Inr a \<Rightarrow> Done a t')"

text \<open>
  \<open>this.tasks.push(async () => body)\<close>: the closure runs \<open>body\<close> on the builder as
  it is when the task is run; what \<open>body\<close> pushes is appended to the queue.
\<close>

definition closure :: "(unit, 'u tx) prog \<Rightarrow> 'u task" where
  "closure body =
     Task (\<lambda>w. case body \<lparr>world = w, tasks = []\<rparr> of
                  Done _ t \<Rightarrow> (None, world t, tasks t)
                | Thrown e t \<Rightarrow> (Some e, world t, tasks t))"

definition push :: "'u task \<Rightarrow> (unit, 'u tx) prog" where
  "push k t = Done () (t\<lparr>tasks := tasks t @ [k]\<rparr>)"

subsection \<open>Draining the task queue\<close>

text \<open>
  \<open>for (const task of this.tasks) { await task(); }\<close>. The array iterator reads
  \<open>this.tasks[i]\<close> while \<open>i\<close> is below the current length, so a task pushed by
  a running task is run by the same loop, which for that reason need not end. A task
  that throws ends the loop. Nothing is ever removed from \<open>this.tasks\<close>.
\<close>

partial_function (option) drain_from :: "nat \<Rightarrow> 'u tx \<Rightarrow> (unit, 'u tx) outcome option" where
  "drain_from i t =
     (if i < length (tasks t) then
        (case run (tasks t ! i) (world t) of
           (Some e, w, pushed) \<Rightarrow> Some (Thrown e \<lparr>world = w, tasks = tasks t @ pushed\<rparr>)
         | (None, w, pushed) \<Rightarrow> drain_from (Suc i) \<lparr>world = w, tasks = tasks t @ pushed\<rparr>)
      else Some (Done () t))"

declare drain_from.simps [code]

definition drain :: "'u tx \<Rightarrow> (unit, 'u tx) outcome option" where
  "drain t = drain_from 0 t"


subsection \<open>The operations of the builder\<close>

definition utxoToCore :: "env \<Rightarrow> utxo \<Rightarrow> (utxo, 's) prog" where
  "utxoToCore env u =
     (if utxoToCore_ok env u then ret u else throw (External Payload_decoder ''utxoToCore''))"

definition assetsToValue :: "env \<Rightarrow> assets \<Rightarrow> (assets, 's) prog" where
  "assetsToValue env a =
     (if assetsToValue_ok env a then ret a else throw (External Payload_decoder ''assetsToValue''))"

text \<open>
  \<open>redeemer ? C.ScriptWitness.new_plutus_witness(C.PlutusWitness.new(
  C.PlutusData.from_bytes(fromHex(redeemer)), undefined, undefined)) : undefined\<close>,
  the last argument of \<open>add_mint\<close>, \<open>add_certificate\<close> and \<open>add_withdrawal\<close>.
\<close>

definition redeemer_witness :: "env \<Rightarrow> string option \<Rightarrow> (script_witness option, 's) prog" where
  "redeemer_witness env redeemer =
     (case present redeemer of
        None \<Rightarrow> ret None
      | Some r \<Rightarrow>
          and_then (decode env PlutusData ''C.PlutusData.from_bytes'' r) (\<lambda>d.
          ret (Some (Plutus_witness d None))))"

text \<open>
  A utxo of the caller, by reference: reading it, and the assignment
  \<open>utxo.datum = ...\<close>, which every holder of the object sees. A reference to
  nothing is the \<open>undefined\<close> whose \<open>datumHash\<close> cannot be read.
\<close>

definition object :: "nat \<Rightarrow> (utxo, 'u tx) prog" where
  "object r t =
     (if r < length (objects (world t)) then Done (objects (world t) ! r) t
      else Thrown TypeError t)"

definition set_datum :: "nat \<Rightarrow> string \<Rightarrow> (unit, 'u tx) prog" where
  "set_datum r d t =
     Done () (t\<lparr>world := (world t)\<lparr>objects :=
       (objects (world t))[r := (objects (world t) ! r)\<lparr>datum := Some d\<rparr>]\<rparr>\<rparr>)"

text \<open>
  The body of the loop of \<open>readFrom\<close>, for one utxo: the datum is looked up and
  written to the object when the object has a datum hash and no datum, then decoded
  and handed to the engine; then the utxo, as it now is, becomes a reference input.
\<close>

definition readFrom_utxo :: "env \<Rightarrow> nat \<Rightarrow> (unit, 'u tx) prog" where
  "readFrom_utxo env r =
     and_then (object r) (\<lambda>u.
     and_then
       (if truthy (datumHash u) \<and> \<not> truthy (datum u) then
          and_then (await (DatumOf u) (datumOf env u)) (\<lambda>d.
          and_then (set_datum r d) (\<lambda>_.
          and_then (decode env PlutusData ''C.PlutusData.from_bytes'' d) (\<lambda>plutusData.
          tb env (Add_plutus_data plutusData))))
        else ret ()) (\<lambda>_.
     and_then (object r) (\<lambda>u'.
     and_then (utxoToCore env u') (\<lambda>coreUtxo.
     tb env (Add_reference_input coreUtxo)))))"

definition readFrom :: "env \<Rightarrow> nat list \<Rightarrow> (unit, 'u tx) prog" where
  "readFrom env utxos = push (closure (for_each (readFrom_utxo env) utxos))"

text \<open>The body of the loop of \<open>collectFrom\<close>, for one utxo.\<close>

definition collectFrom_utxo :: "env \<Rightarrow> string option \<Rightarrow> nat \<Rightarrow> (unit, 'u tx) prog" where
  "collectFrom_utxo env redeemer r =
     and_then (object r) (\<lambda>u.
     and_then
       (if truthy (datumHash u) \<and> \<not> truthy (datum u) then
          and_then (await (DatumOf u) (datumOf env u)) (\<lambda>d. set_datum r d)
        else ret ()) (\<lambda>_.
     and_then (object r) (\<lambda>u'.
     and_then (utxoToCore env u') (\<lambda>coreUtxo.
     and_then
       (case redeemer of
          None \<Rightarrow> ret W_undefined
        | Some rd \<Rightarrow>
            if rd = [] then ret W_empty_string
            else
              and_then (decode env PlutusData ''C.PlutusData.from_bytes'' rd) (\<lambda>rdd.
              and_then
                (if truthy (datumHash u') \<and> truthy (datum u') then
                   (case datum u' of
                      Some d \<Rightarrow>
                        and_then (decode env PlutusData ''C.PlutusData.from_bytes'' d) (\<lambda>dd.
                        ret (Some dd))
                    | None \<Rightarrow> ret None)
                 else ret None) (\<lambda>wd.
              ret (W_witness (Plutus_witness rdd wd))))) (\<lambda>w.
     tb env (Add_input coreUtxo w))))))"

definition collectFrom :: "env \<Rightarrow> nat list \<Rightarrow> string option \<Rightarrow> (unit, 'u tx) prog" where
  "collectFrom env utxos redeemer =
     push (closure (for_each (collectFrom_utxo env redeemer) utxos))"

text \<open>
  The callback of \<open>units.forEach\<close> in \<open>mintAssets\<close>, for one entry: the check
  of the policy id, then the two decoders whose results are inserted.
\<close>

definition mint_entry :: "env \<Rightarrow> string \<Rightarrow> string \<times> int \<Rightarrow> (string \<times> int, 's) prog" where
  "mint_entry env policyId entry =
     (if take 56 (fst entry) \<noteq> policyId then throw MixedPolicyError
      else
        and_then (decode env AssetName ''C.AssetName.new'' (drop 56 (fst entry))) (\<lambda>name.
        and_then (decode_num env Int_from_str ''C.Int.from_str'' (snd entry)) (\<lambda>q.
        ret (name, q))))"

text \<open>
  The policy ids of an asset map: the first 56 characters of each unit. What
  \<open>mintAssets\<close> registers for an entry: the rest of the unit, and the quantity.
\<close>

definition policy_ids :: "assets \<Rightarrow> string set" where
  "policy_ids assets = (\<lambda>entry. take 56 (fst entry)) ` set assets"

definition minted :: "assets \<Rightarrow> (string \<times> int) list" where
  "minted assets = map (\<lambda>entry. (drop 56 (fst entry), snd entry)) assets"

text \<open>
  \<open>units[0]\<close> is undefined for an object without keys, and \<open>units[0].slice\<close>
  is then a TypeError.
\<close>

definition mintAssets :: "env \<Rightarrow> assets \<Rightarrow> string option \<Rightarrow> (unit, 'u tx) prog" where
  "mintAssets env assets redeemer =
     (case map fst assets of
        [] \<Rightarrow> throw TypeError
      | unit0 # _ \<Rightarrow>
          and_then (map_m (mint_entry env (take 56 unit0)) assets) (\<lambda>mintAssets.
          and_then (decode env ScriptHash ''C.ScriptHash.from_bytes'' (take 56 unit0)) (\<lambda>scriptHash.
          and_then (redeemer_witness env redeemer) (\<lambda>w.
          tb env (Add_mint scriptHash mintAssets w)))))"

definition payToAddress :: "env \<Rightarrow> string \<Rightarrow> assets \<Rightarrow> (unit, 'u tx) prog" where
  "payToAddress env address assets =
     and_then (decode env Address_bech32 ''C.Address.from_bech32'' address) (\<lambda>a.
     and_then (assetsToValue env assets) (\<lambda>v.
     tb env (Add_output \<lparr>out_address = a, out_value = v, out_datum = None, out_script_ref = None\<rparr>)))"

text \<open>\<open>if (typeof outputData === "string") outputData = { asHash: outputData }\<close>\<close>

fun as_object :: "output_data_arg \<Rightarrow> output_data" where
  "as_object (Str d) = \<lparr>asHash = Some d, inline = None, scriptRef = None\<rparr>"
| "as_object (Obj od) = od"

definition script_ref :: "env \<Rightarrow> script option \<Rightarrow> (script option, 's) prog" where
  "script_ref env sr =
     (case sr of
        None \<Rightarrow> ret None
      | Some s \<Rightarrow>
          (case script_type s of
             Native \<Rightarrow>
               and_then (decode env NativeScript ''C.NativeScript.from_bytes'' (script_body s)) (\<lambda>_.
               ret (Some s))
           | PlutusV1 \<Rightarrow>
               and_then (decode env PlutusScript ''C.PlutusScript.from_bytes'' (script_body s)) (\<lambda>_.
               ret (Some s))
           | PlutusV2 \<Rightarrow>
               and_then (decode env PlutusScript ''C.PlutusScript.from_bytes'' (script_body s)) (\<lambda>_.
               ret (Some s))))"

definition payToAddressWithData ::
  "env \<Rightarrow> string \<Rightarrow> output_data_arg \<Rightarrow> assets \<Rightarrow> (unit, 'u tx) prog" where
  "payToAddressWithData env address outputData assets =
     (let od = as_object outputData in
      if truthy (asHash od) \<and> truthy (inline od) then throw ConflictingDatumError
      else
        and_then (decode env Address_bech32 ''C.Address.from_bech32'' address) (\<lambda>a.
        and_then (assetsToValue env assets) (\<lambda>v.
        and_then
          (case present (asHash od) of
             Some h \<Rightarrow>
               and_then (decode env PlutusData ''C.PlutusData.from_bytes'' h) (\<lambda>plutusData.
               and_then (tb env (Add_plutus_data plutusData)) (\<lambda>_.
               ret (Some (New_data_hash plutusData))))
           | None \<Rightarrow>
               (case present (inline od) of
                  Some i \<Rightarrow>
                    and_then (decode env PlutusData ''C.PlutusData.from_bytes'' i) (\<lambda>plutusData.
                    ret (Some (New_data plutusData)))
                | None \<Rightarrow> ret None)) (\<lambda>d.
        and_then (script_ref env (scriptRef od)) (\<lambda>sr.
        tb env (Add_output \<lparr>out_address = a, out_value = v, out_datum = d, out_script_ref = sr\<rparr>))))))"

definition payToContract ::
  "env \<Rightarrow> string \<Rightarrow> output_data_arg \<Rightarrow> assets \<Rightarrow> (unit, 'u tx) prog" where
  "payToContract env address outputData assets =
     (let od = as_object outputData in
      if \<not> (truthy (asHash od) \<or> truthy (inline od)) then throw UnspendableOutputError
      else payToAddressWithData env address (Obj od) assets)"

text \<open>
  What an output with data asks of the builder: the datum's body when the datum goes
  by hash, and the output with its datum.
\<close>

definition datum_calls :: "output_data \<Rightarrow> call list" where
  "datum_calls od = (case present (asHash od) of Some h \<Rightarrow> [Add_plutus_data h] | None \<Rightarrow> [])"

definition output_datum :: "output_data \<Rightarrow> core_datum option" where
  "output_datum od =
     (case present (asHash od) of
        Some h \<Rightarrow> Some (New_data_hash h)
      | None \<Rightarrow> (case present (inline od) of Some i \<Rightarrow> Some (New_data i) | None \<Rightarrow> None))"

text \<open>
  The lines that \<open>delegateTo\<close>, \<open>registerStake\<close> and \<open>deregisterStake\<close>
  share word for word: the details of the address, the check that it is a reward
  address with a stake credential, and the engine's credential for a key hash or a
  script hash.
\<close>

definition reward_credential :: "env \<Rightarrow> string \<Rightarrow> (stake_credential, 's) prog" where
  "reward_credential env address =
     (case getAddressDetails env address of
        Inl m \<Rightarrow> throw (External Address_decoder m)
      | Inr addressDetails \<Rightarrow>
          (case stakeCredential addressDetails of
             None \<Rightarrow> throw Not_a_reward_address
           | Some sc \<Rightarrow>
               if address_type addressDetails \<noteq> Reward then throw Not_a_reward_address
               else if credential_type sc = Key then
                 and_then (decode env Ed25519KeyHash_bytes ''C.Ed25519KeyHash.from_bytes'' (hash sc)) (\<lambda>h.
                 ret (From_keyhash h))
               else
                 and_then (decode env ScriptHash ''C.ScriptHash.from_bytes'' (hash sc)) (\<lambda>h.
                 ret (From_scripthash h))))"

definition delegateTo :: "env \<Rightarrow> string \<Rightarrow> string \<Rightarrow> string option \<Rightarrow> (unit, 'u tx) prog" where
  "delegateTo env address pool redeemer =
     and_then (reward_credential env address) (\<lambda>credential.
     and_then (decode env Ed25519KeyHash_bech32 ''C.Ed25519KeyHash.from_bech32'' pool) (\<lambda>p.
     and_then (redeemer_witness env redeemer) (\<lambda>w.
     tb env (Add_certificate (Stake_delegation credential p) w))))"

definition registerStake :: "env \<Rightarrow> string \<Rightarrow> (unit, 'u tx) prog" where
  "registerStake env address =
     and_then (reward_credential env address) (\<lambda>credential.
     tb env (Add_certificate (Stake_registration credential) None))"

definition deregisterStake :: "env \<Rightarrow> string \<Rightarrow> string option \<Rightarrow> (unit, 'u tx) prog" where
  "deregisterStake env address redeemer =
     and_then (reward_credential env address) (\<lambda>credential.
     and_then (redeemer_witness env redeemer) (\<lambda>w.
     tb env (Add_certificate (Stake_deregistration credential) w)))"

text \<open>
  Modelled from the spec: the binding through which tx.ts hands a reward address to the
  engine (\<open>add_withdrawal\<close>, \<open>C.PoolParams.new\<close>) is not part of tx.ts. The
  specification gives these calls a reward-address kind check (section 4.4) that fails
  with the invalid-address kind when the address is of the wrong kind for the call
  (section 7); tx.ts leaves that check to the binding, which takes an object of the
  class \<open>RewardAddress\<close> and throws on the \<open>undefined\<close> that
  \<open>C.RewardAddress.from_address\<close> returns for any other address.
\<close>

definition reward_argument :: "string option \<Rightarrow> (string, 's) prog" where
  "reward_argument ra =
     (case ra of
        None \<Rightarrow> throw (External Address_kind ''expected instance of RewardAddress'')
      | Some a \<Rightarrow> ret a)"

text \<open>
  \<open>withdraw\<close> asks the engine alone: \<open>C.Address.from_bech32\<close>, then
  \<open>C.RewardAddress.from_address(...)!\<close>, whose result is an argument of
  \<open>add_withdrawal\<close> as it is (the \<open>!\<close> is erased at compile time). The
  arguments are evaluated from left to right, and the call is made after the last.
\<close>

definition withdraw :: "env \<Rightarrow> string \<Rightarrow> int \<Rightarrow> string option \<Rightarrow> (unit, 'u tx) prog" where
  "withdraw env address amount redeemer =
     and_then (decode env Address_bech32 ''C.Address.from_bech32'' address) (\<lambda>a.
     and_then (decode_num env BigNum ''C.BigNum.from_str'' amount) (\<lambda>n.
     and_then (redeemer_witness env redeemer) (\<lambda>w.
     and_then (reward_argument (if is_reward env a then Some a else None)) (\<lambda>ra.
     tb env (Add_withdrawal ra n w)))))"

text \<open>The callback of \<open>poolParams.owners.forEach\<close>, for one owner.\<close>

definition pool_owner :: "env \<Rightarrow> string \<Rightarrow> (string, 's) prog" where
  "pool_owner env owner =
     (case getAddressDetails env owner of
        Inl m \<Rightarrow> throw (External Address_decoder m)
      | Inr details \<Rightarrow>
          (case stakeCredential details of
             None \<Rightarrow> throw UnsupportedCredentialType
           | Some sc \<Rightarrow>
               if credential_type sc = Key
               then decode env Ed25519KeyHash_hex ''C.Ed25519KeyHash.from_hex'' (hash sc)
               else throw UnsupportedCredentialType))"

definition decode_opt :: "env \<Rightarrow> codec \<Rightarrow> string \<Rightarrow> string option \<Rightarrow> (string option, 's) prog" where
  "decode_opt env k what x =
     (case present x of
        None \<Rightarrow> ret None
      | Some s \<Rightarrow> and_then (decode env k what s) (\<lambda>y. ret (Some y)))"

text \<open>
  The callback of \<open>poolParams.relays.forEach\<close>, for one relay. \<open>relay.domainName!\<close>
  hands an absent name to the engine, which has no record to build from it.
\<close>

definition relay_of :: "env \<Rightarrow> relay \<Rightarrow> (core_relay, 's) prog" where
  "relay_of env r =
     (case relay_type r of
        SingleHostIp \<Rightarrow>
          and_then (decode_opt env Ipv4 ''C.Ipv4.new'' (ipV4 r)) (\<lambda>v4.
          and_then (decode_opt env Ipv6 ''C.Ipv6.new'' (ipV6 r)) (\<lambda>v6.
          ret (Single_host_addr (port r) v4 v6)))
      | SingleHostDomainName \<Rightarrow>
          (case domainName r of
             None \<Rightarrow> throw (External Payload_decoder ''C.DNSRecordAorAAAA.new'')
           | Some n \<Rightarrow>
               and_then (decode env DNSRecordAorAAAA ''C.DNSRecordAorAAAA.new'' n) (\<lambda>d.
               ret (Single_host_name (port r) d)))
      | MultiHost \<Rightarrow>
          (case domainName r of
             None \<Rightarrow> throw (External Payload_decoder ''C.DNSRecordSRV.new'')
           | Some n \<Rightarrow>
               and_then (decode env DNSRecordSRV ''C.DNSRecordSRV.new'' n) (\<lambda>d.
               ret (Multi_host_name d))))"

text \<open>
  \<open>createPoolRegistration\<close>: the owners first, then the metadata fetched when a URL
  is given, the relays, and the arguments of \<open>C.PoolParams.new\<close> from left to right.
  The hash of the metadata is kept as the bytes it is taken of.
\<close>

definition createPoolRegistration :: "env \<Rightarrow> pool_params \<Rightarrow> (pool_registration, 'u tx) prog" where
  "createPoolRegistration env poolParams =
     and_then (map_m (pool_owner env) (owners poolParams)) (\<lambda>poolOwners.
     and_then
       (case present (metadataUrl poolParams) of
          None \<Rightarrow> ret None
        | Some url \<Rightarrow> and_then (await (Fetch url) (fetch env url)) (\<lambda>bytes. ret (Some bytes))) (\<lambda>metadataHash.
     and_then (map_m (relay_of env) (relays poolParams)) (\<lambda>rs.
     and_then (decode env Ed25519KeyHash_bech32 ''C.Ed25519KeyHash.from_bech32'' (poolId poolParams)) (\<lambda>op.
     and_then (decode env VRFKeyHash ''C.VRFKeyHash.from_hex'' (vrfKeyHash poolParams)) (\<lambda>v.
     and_then (decode_num env BigNum ''C.BigNum.from_str'' (pledge poolParams)) (\<lambda>pl.
     and_then (decode_num env BigNum ''C.BigNum.from_str'' (cost poolParams)) (\<lambda>co.
     and_then (if margin_ok env (margin poolParams) then ret (margin poolParams)
               else throw (External Payload_decoder ''C.UnitInterval.from_float'')) (\<lambda>ma.
     and_then (decode env Address_bech32 ''C.Address.from_bech32'' (rewardAddress poolParams)) (\<lambda>ra.
     and_then
       (case metadataHash of
          None \<Rightarrow> ret None
        | Some h \<Rightarrow>
            (case metadataUrl poolParams of
               None \<Rightarrow> throw (External Payload_decoder ''C.URL.new'')
             | Some url \<Rightarrow>
                 and_then (decode env URL ''C.URL.new'' url) (\<lambda>u. ret (Some (u, h))))) (\<lambda>md.
     and_then (reward_argument (if is_reward env ra then Some ra else None)) (\<lambda>account.
     ret \<lparr>operator = op, vrf = v, reg_pledge = pl, reg_cost = co, reg_margin = ma,
          reward_account = account,
          pool_owners = poolOwners, reg_relays = rs, pool_metadata = md,
          is_update = False\<rparr>)))))))))))"

definition registerPool_task :: "env \<Rightarrow> pool_params \<Rightarrow> (unit, 'u tx) prog" where
  "registerPool_task env poolParams =
     and_then (createPoolRegistration env poolParams) (\<lambda>poolRegistration.
     tb env (Add_certificate (Pool_registration poolRegistration) None))"

definition registerPool :: "env \<Rightarrow> pool_params \<Rightarrow> (unit, 'u tx) prog" where
  "registerPool env poolParams = push (closure (registerPool_task env poolParams))"

definition updatePool_task :: "env \<Rightarrow> pool_params \<Rightarrow> (unit, 'u tx) prog" where
  "updatePool_task env poolParams =
     and_then (createPoolRegistration env poolParams) (\<lambda>poolRegistration.
     tb env (Add_certificate (Pool_registration (poolRegistration\<lparr>is_update := True\<rparr>)) None))"

definition updatePool :: "env \<Rightarrow> pool_params \<Rightarrow> (unit, 'u tx) prog" where
  "updatePool env poolParams = push (closure (updatePool_task env poolParams))"

text \<open>
  \<open>if (condition) this.tasks.push(() => callback(this))\<close>: the callback is any
  program on the builder.
\<close>

definition applyIf :: "bool \<Rightarrow> (unit, 'u tx) prog \<Rightarrow> (unit, 'u tx) prog" where
  "applyIf condition callback =
     (if condition then push (closure callback) else ret ())"

subsection \<open>Finalization\<close>

text \<open>\<open>options?.datum?.asHash\<close> and its like: undefined as soon as a link is.\<close>

definition opt_asHash :: "complete_options option \<Rightarrow> string option" where
  "opt_asHash options = Option.bind (Option.bind options change_datum) datum_asHash"

definition opt_inline :: "complete_options option \<Rightarrow> string option" where
  "opt_inline options = Option.bind (Option.bind options change_datum) datum_inline"

definition opt_changeAddress :: "complete_options option \<Rightarrow> string option" where
  "opt_changeAddress options = Option.bind options changeAddress"

definition opt_coinSelection :: "complete_options option \<Rightarrow> bool option" where
  "opt_coinSelection options = Option.bind options coinSelection"

text \<open>\<open>options?.coinSelection || options?.coinSelection === undefined\<close>\<close>

definition coin_selection_enabled :: "complete_options option \<Rightarrow> bool" where
  "coin_selection_enabled options =
     (opt_coinSelection options = Some True \<or> opt_coinSelection options = None)"

text \<open>The artifact: what \<open>construct\<close> was called on.\<close>

datatype tx_complete = TxComplete "call list"

text \<open>The call with which \<open>complete\<close> asks the engine to select inputs.\<close>

fun is_coin_selection :: "call \<Rightarrow> bool" where
  "is_coin_selection (Add_inputs_from utxos a) = True"
| "is_coin_selection c = False"

text \<open>
  What \<open>complete\<close> does once the queue is drained: the wallet's utxos, the change
  address (the wallet is asked only when the option is falsy), coin selection,
  balancing with the change datum, the datum's body when it goes by hash, and the
  construction.
\<close>

definition finalize :: "env \<Rightarrow> complete_options option \<Rightarrow> (tx_complete, 'u tx) prog" where
  "finalize env options =
     and_then (await GetUtxosCore (getUtxosCore env)) (\<lambda>utxos.
     and_then
       (case present (opt_changeAddress options) of
          Some a \<Rightarrow> ret a
        | None \<Rightarrow> await WalletAddress (wallet_address env)) (\<lambda>a.
     and_then (decode env Address_bech32 ''C.Address.from_bech32'' a) (\<lambda>changeAddr.
     and_then
       (if coin_selection_enabled options then tb env (Add_inputs_from utxos changeAddr)
        else ret ()) (\<lambda>_.
     and_then
       (case present (opt_asHash options) of
          Some h \<Rightarrow>
            and_then (decode env PlutusData ''C.PlutusData.from_bytes'' h) (\<lambda>d.
            ret (Some (New_data_hash d)))
        | None \<Rightarrow>
            (case present (opt_inline options) of
               Some i \<Rightarrow>
                 and_then (decode env PlutusData ''C.PlutusData.from_bytes'' i) (\<lambda>d.
                 ret (Some (New_data d)))
             | None \<Rightarrow> ret None)) (\<lambda>d.
     and_then (tb env (Balance changeAddr d)) (\<lambda>_.
     and_then
       (case present (opt_asHash options) of
          Some h \<Rightarrow>
            and_then (decode env PlutusData ''C.PlutusData.from_bytes'' h) (\<lambda>pd.
            tb env (Add_plutus_data pd))
        | None \<Rightarrow> ret ()) (\<lambda>_.
     and_then (tb env (Construct utxos changeAddr)) (\<lambda>_ t.
     Done (TxComplete (calls (world t))) t))))))))"

text \<open>
  \<open>complete\<close>: the check of the change datum, the loop over the tasks, and the rest.
  \<open>None\<close> is a loop that does not end.
\<close>

definition complete ::
  "env \<Rightarrow> complete_options option \<Rightarrow> 'u tx \<Rightarrow> (tx_complete, 'u tx) outcome option" where
  "complete env options t =
     (if truthy (opt_asHash options) \<and> truthy (opt_inline options)
      then Some (Thrown ConflictingDatumError t)
      else
        (case drain t of
           None \<Rightarrow> None
         | Some (Thrown e t') \<Rightarrow> Some (Thrown e t')
         | Some (Done _ t') \<Rightarrow> Some (finalize env options t')))"

subsection \<open>Tasks that record their execution\<close>

text \<open>
  The callback of the drain-order test: it takes \<open>latency\<close> units of time to
  complete and then appends \<open>label\<close> to a log shared by all callbacks. The world of
  the callbacks is the clock and the log.
\<close>

definition record_label :: "'l \<Rightarrow> nat \<Rightarrow> (unit, (nat \<times> 'l list) tx) prog" where
  "record_label label latency t =
     Done () (t\<lparr>world := (world t)\<lparr>user :=
       (fst (user (world t)) + latency, snd (user (world t)) @ [label])\<rparr>\<rparr>)"

definition recorders :: "('l \<times> nat) list \<Rightarrow> (nat \<times> 'l list) task list" where
  "recorders jobs = map (\<lambda>job. closure (record_label (fst job) (snd job))) jobs"

definition logged :: "(nat \<times> 'l list) tx \<Rightarrow> 'l list" where
  "logged t = snd (user (world t))"

definition clock :: "(nat \<times> 'l list) tx \<Rightarrow> nat" where
  "clock t = fst (user (world t))"

text \<open>What the engine and the awaited collaborators may change, and what they may not.\<close>

definition engine_only :: "'u tx \<Rightarrow> 'u tx \<Rightarrow> bool" where
  "engine_only t t' = (user (world t') = user (world t) \<and> tasks t' = tasks t)"

subsection \<open>A test double for the collaborators\<close>

text \<open>
  A recording engine with a small address book, in the manner of the fake ledger
  engine of the design notes: it knows four addresses, decodes every payload but an
  asset name of more than 32 bytes (64 hexadecimal digits), takes as \<open>BigNum\<close> the
  unsigned 64-bit numbers only, and takes every call on the builder.
\<close>

definition demo_details :: "string \<Rightarrow> string + address_details" where
  "demo_details a =
     (if a = ''stake_key'' then
        Inr \<lparr>address_type = Reward, paymentCredential = None,
             stakeCredential = Some \<lparr>credential_type = Key, hash = ''aa''\<rparr>\<rparr>
      else if a = ''stake_script'' then
        Inr \<lparr>address_type = Reward, paymentCredential = None,
             stakeCredential = Some \<lparr>credential_type = Script, hash = ''bb''\<rparr>\<rparr>
      else if a = ''addr_base'' then
        Inr \<lparr>address_type = Base,
             paymentCredential = Some \<lparr>credential_type = Key, hash = ''cc''\<rparr>,
             stakeCredential = Some \<lparr>credential_type = Key, hash = ''aa''\<rparr>\<rparr>
      else if a = ''addr_script_stake'' then
        Inr \<lparr>address_type = Base,
             paymentCredential = Some \<lparr>credential_type = Key, hash = ''cc''\<rparr>,
             stakeCredential = Some \<lparr>credential_type = Script, hash = ''bb''\<rparr>\<rparr>
      else Inl ''getAddressDetails'')"

definition demo_rejects :: "call list \<Rightarrow> call \<Rightarrow> string option" where
  "demo_rejects cs c = None"

definition demo_decodes :: "codec \<Rightarrow> string \<Rightarrow> bool" where
  "demo_decodes k s = (k = AssetName \<longrightarrow> length s \<le> 64)"

definition demo_num_ok :: "num_codec \<Rightarrow> int \<Rightarrow> bool" where
  "demo_num_ok k n = (k = BigNum \<longrightarrow> 0 \<le> n \<and> n < 2 ^ 64)"

definition demo_utxo :: utxo where
  "demo_utxo = \<lparr>txHash = ''00'', outputIndex = 0, datumHash = None, datum = None\<rparr>"

definition demo_env :: env where
  "demo_env =
     \<lparr>getAddressDetails = demo_details,
      decodes = demo_decodes,
      num_ok = demo_num_ok,
      assetsToValue_ok = (\<lambda>a. True),
      utxoToCore_ok = (\<lambda>u. True),
      margin_ok = (\<lambda>m. True),
      is_reward = (\<lambda>a. a = ''stake_key'' \<or> a = ''stake_script''),
      rejects = demo_rejects,
      datumOf = (\<lambda>u. Inr ''d87980''),
      getUtxosCore = Inr [demo_utxo],
      wallet_address = Inr ''addr_base'',
      fetch = (\<lambda>url. Inr ''metadata'')\<rparr>"

definition demo_pool :: pool_params where
  "demo_pool =
     \<lparr>poolId = ''pool1'', vrfKeyHash = ''dd'', pledge = 100, cost = 340, margin = 0,
      rewardAddress = ''stake_key'', owners = [''stake_key'', ''addr_script_stake''],
      relays = [], metadataUrl = None\<rparr>"

text \<open>A builder on which three recording callbacks with different latencies wait.\<close>

definition demo_queue :: "(nat \<times> nat list) tx" where
  "demo_queue = (new_tx (0, []))\<lparr>tasks := recorders [(1, 5), (2, 0), (3, 2)]\<rparr>"

definition demo_drained :: "(nat \<times> nat list) tx" where
  "demo_drained = demo_queue\<lparr>world := (world demo_queue)\<lparr>user := (7, [1, 2, 3])\<rparr>\<rparr>"

definition demo_drained_twice :: "(nat \<times> nat list) tx" where
  "demo_drained_twice =
     demo_queue\<lparr>world := (world demo_queue)\<lparr>user := (14, [1, 2, 3, 1, 2, 3])\<rparr>\<rparr>"

definition demo_options :: "bool option \<Rightarrow> complete_options" where
  "demo_options cs = \<lparr>changeAddress = None, change_datum = None, coinSelection = cs\<rparr>"

definition demo_selected :: "call list" where
  "demo_selected =
     [Add_inputs_from [demo_utxo] ''addr_base'', Balance ''addr_base'' None,
      Construct [demo_utxo] ''addr_base'']"

definition demo_unselected :: "call list" where
  "demo_unselected = [Balance ''addr_base'' None, Construct [demo_utxo] ''addr_base'']"

definition demo_completed :: "call list \<Rightarrow> unit tx" where
  "demo_completed cs =
     \<lparr>world = \<lparr>calls = cs, io = [GetUtxosCore, WalletAddress], objects = [], user = ()\<rparr>,
      tasks = []\<rparr>"

definition demo_policy_a :: string where
  "demo_policy_a = replicate 56 (CHR ''a'')"

definition demo_policy_b :: string where
  "demo_policy_b = replicate 56 (CHR ''b'')"

definition demo_mixed :: assets where
  "demo_mixed = [(demo_policy_a @ ''746f6b656e31'', 10), (demo_policy_b @ ''746f6b656e32'', 5)]"

definition demo_single :: assets where
  "demo_single =
     [(demo_policy_a @ ''746f6b656e31'', 10), (demo_policy_a @ ''746f6b656e32'', 5),
      (demo_policy_a, 1)]"

text \<open>Two policy ids, the first unit with an asset name of 33 bytes.\<close>

definition demo_long_name :: assets where
  "demo_long_name =
     [(demo_policy_a @ replicate 66 (CHR ''0''), 1), (demo_policy_b @ ''746f6b656e32'', 5)]"

definition demo_assets :: assets where
  "demo_assets = [(''lovelace'', 2000000)]"

definition demo_no_datum :: output_data where
  "demo_no_datum = \<lparr>asHash = None, inline = None, scriptRef = None\<rparr>"

definition demo_hash_only :: output_data where
  "demo_hash_only = \<lparr>asHash = Some ''d87980'', inline = None, scriptRef = None\<rparr>"

definition demo_inline_only :: output_data where
  "demo_inline_only =
     \<lparr>asHash = None, inline = Some ''d87980'',
      scriptRef = Some \<lparr>script_type = PlutusV2, script_body = ''4e4d01000033222220051200120011''\<rparr>\<rparr>"

definition demo_both :: output_data where
  "demo_both = \<lparr>asHash = Some ''d87980'', inline = Some ''d87980'', scriptRef = None\<rparr>"


definition demo_key_pool :: pool_params where
  "demo_key_pool = demo_pool\<lparr>owners := [''stake_key'', ''addr_base'']\<rparr>"

definition demo_conflict :: complete_options where
  "demo_conflict =
     \<lparr>changeAddress = None,
      change_datum = Some \<lparr>datum_asHash = Some ''deadbeef'', datum_inline = Some ''deadbeef''\<rparr>,
      coinSelection = None\<rparr>"

text \<open>A utxo locked by a datum hash whose datum the caller does not hold, and its holder.\<close>

definition demo_locked :: utxo where
  "demo_locked = \<lparr>txHash = ''01'', outputIndex = 0, datumHash = Some ''9e1199a9'', datum = None\<rparr>"

definition demo_holding :: "unit tx" where
  "demo_holding = (new_tx ())\<lparr>world := (world (new_tx ()))\<lparr>objects := [demo_locked]\<rparr>\<rparr>"

section \<open>Properties\<close>

subsection \<open>Programs\<close>

lemma and_then_Done:
  "and_then m f s = Done b s'' \<longleftrightarrow> (\<exists>a s'. m s = Done a s' \<and> f a s' = Done b s'')"
  by (auto simp: and_then_def split: outcome.splits)

lemma and_then_Thrown:
  "and_then m f s = Thrown e s'' \<longleftrightarrow>
     m s = Thrown e s'' \<or> (\<exists>a s'. m s = Done a s' \<and> f a s' = Thrown e s'')"
  by (auto simp: and_then_def split: outcome.splits)

lemma ret_Done: "ret a t = Done x t' \<longleftrightarrow> x = a \<and> t' = t"
  by (auto simp: ret_def)

lemma throw_Done: "throw e t \<noteq> Done x t'"
  by (simp add: throw_def)

lemma ret_final: "final (ret a t) = t"
  by (simp add: ret_def)

lemma tb_Done:
  "tb env c t = Done x t' \<longleftrightarrow>
     rejects env (calls (world t)) c = None \<and>
     t' = t\<lparr>world := (world t)\<lparr>calls := calls (world t) @ [c]\<rparr>\<rparr>"
  by (auto simp: tb_def split: option.splits)

lemma await_Done:
  "await ev r t = Done a t' \<longleftrightarrow>
     r = Inr a \<and> t' = t\<lparr>world := (world t)\<lparr>io := io (world t) @ [ev]\<rparr>\<rparr>"
  by (auto simp: await_def Let_def split: sum.splits)

lemma decode_Done:
  "decode env k what s t = Done x t' \<longleftrightarrow> decodes env k s \<and> x = s \<and> t' = t"
  by (auto simp: decode_def ret_def throw_def)

lemma decode_final: "final (decode env k what s t) = t"
  by (simp add: decode_def ret_def throw_def)

subsection \<open>What the engine and the awaited collaborators leave alone\<close>

lemma engine_only_refl: "engine_only t t"
  by (simp add: engine_only_def)

lemma engine_only_trans: "engine_only t t' \<Longrightarrow> engine_only t' t'' \<Longrightarrow> engine_only t t''"
  by (simp add: engine_only_def)

lemma tb_engine_only: "engine_only t (final (tb env c t))"
  by (simp add: tb_def engine_only_def split: option.splits)

lemma await_engine_only: "engine_only t (final (await ev r t))"
  by (simp add: await_def engine_only_def Let_def split: sum.splits)

lemma and_then_engine_only:
  assumes "\<And>s. engine_only s (final (m s))" and "\<And>a s. engine_only s (final (f a s))"
  shows "engine_only t (final (and_then m f t))"
proof (cases "m t")
  case (Done a s)
  then have "engine_only t s" using assms(1)[of t] by simp
  moreover have "engine_only s (final (f a s))" by (rule assms(2))
  ultimately show ?thesis using Done by (auto simp: and_then_def intro: engine_only_trans)
next
  case (Thrown e s)
  then show ?thesis using assms(1)[of t] by (simp add: and_then_def)
qed

lemma finalize_engine_only: "engine_only t (final (finalize env options t))"
  unfolding finalize_def
  by (intro and_then_engine_only tb_engine_only await_engine_only)
     (simp_all add: decode_final ret_final engine_only_refl tb_engine_only await_engine_only
        and_then_engine_only split: option.splits)

text \<open>The calls that finalization adds to the builder when it succeeds.\<close>

lemma finalize_calls:
  assumes "finalize env options t = Done artifact t'"
  shows "\<exists>utxos a d. getUtxosCore env = Inr utxos \<and>
     calls (world t') = calls (world t)
       @ (if coin_selection_enabled options then [Add_inputs_from utxos a] else [])
       @ [Balance a d]
       @ (case present (opt_asHash options) of Some h \<Rightarrow> [Add_plutus_data h] | None \<Rightarrow> [])
       @ [Construct utxos a]"
  using assms unfolding finalize_def
  by (auto simp: and_then_Done tb_Done await_Done decode_Done ret_Done throw_Done
      split: option.splits if_splits)

subsection \<open>The loop over the tasks\<close>

lemma complete_after_drain:
  assumes "\<not> (truthy (opt_asHash options) \<and> truthy (opt_inline options))"
    and "drain t = Some (Done () t1)"
  shows "complete env options t = Some (finalize env options t1)"
  using assms by (auto simp: complete_def)

lemma run_recorder:
  "run (closure (record_label l d)) w =
     (None, w\<lparr>user := (fst (user w) + d, snd (user w) @ [l])\<rparr>, [])"
  by (simp add: closure_def record_label_def)

lemma drain_from_recorders:
  assumes "tasks t = recorders jobs" and "i \<le> length jobs"
  shows "drain_from i t =
     Some (Done () (t\<lparr>world := (world t)\<lparr>user :=
       (fst (user (world t)) + sum_list (map snd (drop i jobs)),
        snd (user (world t)) @ map fst (drop i jobs))\<rparr>\<rparr>))"
  using assms
proof (induction "length jobs - i" arbitrary: i t)
  case 0
  then have "\<not> i < length (tasks t)" by (simp add: recorders_def)
  then show ?case using 0 by (subst drain_from.simps) simp
next
  case (Suc n)
  then have lt: "i < length jobs" by simp
  let ?w = "(world t)\<lparr>user := (fst (user (world t)) + snd (jobs ! i),
                                 snd (user (world t)) @ [fst (jobs ! i)])\<rparr>"
  let ?t = "\<lparr>world = ?w, tasks = tasks t\<rparr>"
  have r: "run (tasks t ! i) (world t) = (None, ?w, [])"
    using lt Suc.prems by (simp add: recorders_def run_recorder)
  have step: "drain_from i t = drain_from (Suc i) ?t"
    using lt Suc.prems r by (subst drain_from.simps) (simp add: recorders_def)
  have "n = length jobs - Suc i" using Suc.hyps by simp
  moreover have "tasks ?t = recorders jobs" using Suc.prems by simp
  moreover have "Suc i \<le> length jobs" using lt by simp
  ultimately have ih: "drain_from (Suc i) ?t =
     Some (Done () (?t\<lparr>world := (world ?t)\<lparr>user :=
       (fst (user (world ?t)) + sum_list (map snd (drop (Suc i) jobs)),
        snd (user (world ?t)) @ map fst (drop (Suc i) jobs))\<rparr>\<rparr>))"
    by (rule Suc.hyps(1))
  have d: "drop i jobs = jobs ! i # drop (Suc i) jobs"
    using lt by (simp add: Cons_nth_drop_Suc)
  show ?case
    unfolding step ih d by (simp add: add.assoc)
qed

lemma drain_recorders:
  assumes "tasks t = recorders jobs"
  shows "drain t =
     Some (Done () (t\<lparr>world := (world t)\<lparr>user :=
       (clock t + sum_list (map snd jobs), logged t @ map fst jobs)\<rparr>\<rparr>))"
  using drain_from_recorders[OF assms, of 0] by (simp add: drain_def clock_def logged_def)

text \<open>A drain never removes a task: the queue it leaves starts with the queue it found.\<close>

lemma drain_from_prefix:
  assumes "drain_from i t = Some out"
  shows "prefix (tasks t) (tasks (final out))"
proof (rule drain_from.raw_induct
    [where P = "\<lambda>i t out. prefix (tasks t) (tasks (final out))", OF _ assms])
  fix f :: "nat \<Rightarrow> 'a tx \<Rightarrow> (unit, 'a tx) outcome option" and i t out
  assume ih: "\<And>i t out. f i t = Some out \<Longrightarrow> prefix (tasks t) (tasks (final out))"
    and eq: "(if i < length (tasks t) then
        (case run (tasks t ! i) (world t) of
           (None, w, pushed) \<Rightarrow> f (Suc i) \<lparr>world = w, tasks = tasks t @ pushed\<rparr>
         | (Some e, w, pushed) \<Rightarrow> Some (Thrown e \<lparr>world = w, tasks = tasks t @ pushed\<rparr>))
      else Some (Done () t)) = Some out"
  show "prefix (tasks t) (tasks (final out))"
  proof (cases "i < length (tasks t)")
    case False
    with eq show ?thesis by auto
  next
    case True
    obtain eo w pushed where r: "run (tasks t ! i) (world t) = (eo, w, pushed)"
      by (cases "run (tasks t ! i) (world t)") auto
    show ?thesis
    proof (cases eo)
      case None
      with eq True r have "f (Suc i) \<lparr>world = w, tasks = tasks t @ pushed\<rparr> = Some out"
        by simp
      then have "prefix (tasks \<lparr>world = w, tasks = tasks t @ pushed\<rparr>) (tasks (final out))"
        by (rule ih)
      then show ?thesis by (auto dest: append_prefixD)
    next
      case (Some e)
      with eq True r show ?thesis by auto
    qed
  qed
qed

lemma complete_prefix:
  assumes "complete env options t = Some out"
  shows "prefix (tasks t) (tasks (final out))"
proof (cases "truthy (opt_asHash options) \<and> truthy (opt_inline options)")
  case True
  with assms show ?thesis by (auto simp: complete_def)
next
  case False
  with assms obtain d where d: "drain t = Some d"
    by (auto simp: complete_def split: option.splits)
  then have p: "prefix (tasks t) (tasks (final d))"
    unfolding drain_def by (rule drain_from_prefix)
  show ?thesis
  proof (cases d)
    case (Thrown e t')
    with assms False d p show ?thesis by (auto simp: complete_def)
  next
    case (Done u t')
    with assms False d have "out = finalize env options t'" by (simp add: complete_def)
    moreover have "tasks (final (finalize env options t')) = tasks t'"
      using finalize_engine_only[of t' env options] by (simp add: engine_only_def)
    ultimately show ?thesis using p Done by simp
  qed
qed

text \<open>Recording callbacks handed to \<open>applyIf\<close> one after the other make the queue \<open>recorders\<close>.\<close>

lemma applyIf_recorders:
  "for_each (\<lambda>job. applyIf True (record_label (fst job) (snd job))) jobs t
     = Done () (t\<lparr>tasks := tasks t @ recorders jobs\<rparr>)"
proof (induction jobs arbitrary: t)
  case Nil
  show ?case by (simp add: recorders_def)
next
  case (Cons job jobs)
  have "applyIf True (record_label (fst job) (snd job)) t
          = Done () (t\<lparr>tasks := tasks t @ [closure (record_label (fst job) (snd job))]\<rparr>)"
    by (simp add: applyIf_def push_def)
  then show ?case by (simp add: Cons.IH recorders_def)
qed

lemma demo_queue_enqueued:
  "for_each (\<lambda>job. applyIf True (record_label (fst job) (snd job)))
     [(1, 5), (2, 0), (3, 2)] (new_tx (0, [])) = Done () demo_queue"
  by (simp add: applyIf_recorders demo_queue_def new_tx_def)

text \<open>
  C2. Let the queue hold the callbacks \<open>T1..Tn\<close> in the order in which they were
  handed to \<open>applyIf\<close>, each of which takes its own time and then appends its label
  to the shared log. The loop of \<open>complete\<close> ends, and it has
  run every callback once and in the order of the queue: the log has grown by exactly
  the labels in that order (by \<open>[1..n]\<close> when the labels are the indices), whatever
  the latencies are, and the clock by the sum of the latencies, each callback having
  been awaited before the next was started. What \<open>complete\<close> does after the loop,
  and how it ends, changes nothing of the log.
\<close>

theorem complete_drains_in_order:
  assumes "tasks t = recorders (zip labels latencies)"
    and "length latencies = length labels"
    and "\<not> (truthy (opt_asHash options) \<and> truthy (opt_inline options))"
  shows "\<exists>t1 out. drain t = Some (Done () t1)
           \<and> logged t1 = logged t @ labels
           \<and> clock t1 = clock t + sum_list latencies
           \<and> tasks t1 = tasks t
           \<and> complete env options t = Some out
           \<and> logged (final out) = logged t @ labels"
proof -
  let ?t1 = "t\<lparr>world := (world t)\<lparr>user :=
       (clock t + sum_list (map snd (zip labels latencies)),
        logged t @ map fst (zip labels latencies))\<rparr>\<rparr>"
  have d: "drain t = Some (Done () ?t1)" by (rule drain_recorders[OF assms(1)])
  have c: "complete env options t = Some (finalize env options ?t1)"
    by (rule complete_after_drain[OF assms(3) d])
  have "engine_only ?t1 (final (finalize env options ?t1))" by (rule finalize_engine_only)
  then have "logged (final (finalize env options ?t1)) = logged ?t1"
    by (simp add: engine_only_def logged_def)
  with d c assms(2) show ?thesis by (simp add: logged_def clock_def)
qed

theorem complete_drains_in_order_witness:
  "for_each (\<lambda>job. applyIf True (record_label (fst job) (snd job)))
     [(1, 5), (2, 0), (3, 2)] (new_tx (0, [])) = Done () demo_queue
   \<and> tasks demo_queue = recorders (zip [1, 2, 3] [5, 0, 2])
   \<and> length [5, 0, 2 :: nat] = length [1, 2, 3 :: nat]
   \<and> \<not> (truthy (opt_asHash None) \<and> truthy (opt_inline None))
   \<and> (\<exists>t1 out. drain demo_queue = Some (Done () t1)
         \<and> logged t1 = [1, 2, 3]
         \<and> clock t1 = 7
         \<and> complete demo_env None demo_queue = Some out
         \<and> logged (final out) = [1, 2, 3])"
  using complete_drains_in_order [of demo_queue "[1, 2, 3]" "[5, 0, 2]" None demo_env]
    demo_queue_enqueued
  by (auto simp: demo_queue_def new_tx_def logged_def clock_def opt_asHash_def opt_inline_def)

text \<open>
  C3, as the claim states it, fails: on the builder with the three recording
  callbacks the first drain leaves the queue as it was, with its three tasks, and the
  second drain runs all three again. The same holds of two calls of \<open>complete\<close>.
\<close>

theorem second_drain_counterexample:
  "drain demo_queue = Some (Done () demo_drained)
   \<and> tasks demo_drained \<noteq> []
   \<and> logged demo_drained = [1, 2, 3]
   \<and> drain demo_drained = Some (Done () demo_drained_twice)
   \<and> logged demo_drained_twice = [1, 2, 3, 1, 2, 3]
   \<and> map_option (\<lambda>out. logged (final out))
        (complete demo_env None (final (the (complete demo_env None demo_queue))))
      = Some [1, 2, 3, 1, 2, 3]"
proof -
  have q: "tasks demo_queue = recorders [(1, 5), (2, 0), (3, 2)]"
    by (simp add: demo_queue_def)
  have q': "tasks demo_drained = recorders [(1, 5), (2, 0), (3, 2)]"
    by (simp add: demo_drained_def demo_queue_def)
  have d1: "drain demo_queue = Some (Done () demo_drained)"
    unfolding drain_recorders[OF q]
    by (simp add: demo_drained_def demo_queue_def new_tx_def clock_def logged_def)
  have d2: "drain demo_drained = Some (Done () demo_drained_twice)"
    unfolding drain_recorders[OF q']
    by (simp add: demo_drained_def demo_drained_twice_def demo_queue_def new_tx_def
        clock_def logged_def)
  have nc: "\<not> (truthy (opt_asHash None) \<and> truthy (opt_inline None))"
    by (simp add: opt_asHash_def)
  let ?c1 = "final (finalize demo_env None demo_drained)"
  have c1: "complete demo_env None demo_queue = Some (finalize demo_env None demo_drained)"
    by (rule complete_after_drain[OF nc d1])
  have e1: "engine_only demo_drained ?c1" by (rule finalize_engine_only)
  then have q'': "tasks ?c1 = recorders [(1, 5), (2, 0), (3, 2)]"
    using q' by (simp add: engine_only_def)
  have u1: "user (world ?c1) = (7, [1, 2, 3])"
    using e1 by (simp add: engine_only_def demo_drained_def)
  let ?t2 = "?c1\<lparr>world := (world ?c1)\<lparr>user := (14, [1, 2, 3, 1, 2, 3])\<rparr>\<rparr>"
  have d3: "drain ?c1 = Some (Done () ?t2)"
    unfolding drain_recorders[OF q''] using u1 by (simp add: clock_def logged_def)
  have c2: "complete demo_env None ?c1 = Some (finalize demo_env None ?t2)"
    by (rule complete_after_drain[OF nc d3])
  have "engine_only ?t2 (final (finalize demo_env None ?t2))" by (rule finalize_engine_only)
  then have "logged (final (finalize demo_env None ?t2)) = [1, 2, 3, 1, 2, 3]"
    by (simp add: engine_only_def logged_def)
  with c1 c2 d1 d2 show ?thesis
    by (simp add: demo_drained_def demo_drained_twice_def demo_queue_def logged_def
        recorders_def)
qed

text \<open>
  C3, amended. A drain never removes a task: the queue that a drain, or a call of
  \<open>complete\<close>, leaves behind starts with the whole queue it found. So a second drain
  runs the queued tasks again: of recording callbacks, each logs its label a second
  time.
\<close>

theorem second_drain_runs_tasks_again:
  "(drain t = Some out \<longrightarrow> prefix (tasks t) (tasks (final out)))
   \<and> (complete env options t = Some out' \<longrightarrow> prefix (tasks t) (tasks (final out')))
   \<and> (tasks r = recorders jobs \<longrightarrow>
        (\<exists>r1 r2. drain r = Some (Done () r1) \<and> tasks r1 = tasks r
           \<and> drain r1 = Some (Done () r2)
           \<and> logged r2 = logged r @ map fst jobs @ map fst jobs))"
proof (intro conjI impI)
  assume "drain t = Some out"
  then show "prefix (tasks t) (tasks (final out))"
    unfolding drain_def by (rule drain_from_prefix)
next
  assume "complete env options t = Some out'"
  then show "prefix (tasks t) (tasks (final out'))" by (rule complete_prefix)
next
  assume q: "tasks r = recorders jobs"
  let ?r1 = "r\<lparr>world := (world r)\<lparr>user :=
       (clock r + sum_list (map snd jobs), logged r @ map fst jobs)\<rparr>\<rparr>"
  have d1: "drain r = Some (Done () ?r1)" by (rule drain_recorders[OF q])
  have q1: "tasks ?r1 = recorders jobs" using q by simp
  let ?r2 = "?r1\<lparr>world := (world ?r1)\<lparr>user :=
       (clock ?r1 + sum_list (map snd jobs), logged ?r1 @ map fst jobs)\<rparr>\<rparr>"
  have d2: "drain ?r1 = Some (Done () ?r2)" by (rule drain_recorders[OF q1])
  have "logged ?r2 = logged r @ map fst jobs @ map fst jobs" by (simp add: logged_def)
  with d1 d2 show "\<exists>r1 r2. drain r = Some (Done () r1) \<and> tasks r1 = tasks r
           \<and> drain r1 = Some (Done () r2)
           \<and> logged r2 = logged r @ map fst jobs @ map fst jobs"
    by (intro exI[of _ ?r1] exI[of _ ?r2]) simp
qed

theorem second_drain_runs_tasks_again_witness:
  "drain demo_queue = Some (Done () demo_drained)
   \<and> prefix (tasks demo_queue) (tasks demo_drained)
   \<and> complete demo_env None demo_queue = Some (finalize demo_env None demo_drained)
   \<and> prefix (tasks demo_queue) (tasks (final (finalize demo_env None demo_drained)))
   \<and> tasks demo_queue = recorders [(1, 5), (2, 0), (3, 2)]
   \<and> (\<exists>r1 r2. drain demo_queue = Some (Done () r1) \<and> tasks r1 = tasks demo_queue
         \<and> drain r1 = Some (Done () r2)
         \<and> logged r2 = [1, 2, 3, 1, 2, 3])"
proof -
  have q: "tasks demo_queue = recorders [(1, 5), (2, 0), (3, 2)]"
    by (simp add: demo_queue_def)
  have d1: "drain demo_queue = Some (Done () demo_drained)"
    unfolding drain_recorders[OF q]
    by (simp add: demo_drained_def demo_queue_def new_tx_def clock_def logged_def)
  have nc: "\<not> (truthy (opt_asHash None) \<and> truthy (opt_inline None))"
    by (simp add: opt_asHash_def)
  have c1: "complete demo_env None demo_queue = Some (finalize demo_env None demo_drained)"
    by (rule complete_after_drain[OF nc d1])
  have l: "logged demo_queue = []" by (simp add: demo_queue_def new_tx_def logged_def)
  show ?thesis
    using second_drain_runs_tasks_again
      [of demo_queue "Done () demo_drained" demo_env None
          "finalize demo_env None demo_drained" demo_queue "[(1, 5), (2, 0), (3, 2)]"]
      q d1 c1 l
    by simp
qed

subsection \<open>Coin selection\<close>

lemma drain_new_tx: "drain (new_tx u) = Some (Done () (new_tx u))"
  by (simp add: drain_def drain_from.simps new_tx_def)

lemma demo_no_conflict:
  "\<not> (truthy (opt_asHash None) \<and> truthy (opt_inline None))"
  "\<not> (truthy (opt_asHash (Some (demo_options cs))) \<and> truthy (opt_inline (Some (demo_options cs))))"
  by (simp_all add: opt_asHash_def demo_options_def)

lemma demo_finalize_default:
  "finalize demo_env None (new_tx ()) =
     Done (TxComplete demo_selected) (demo_completed demo_selected)"
  by (simp add: finalize_def opt_asHash_def opt_inline_def opt_changeAddress_def
      opt_coinSelection_def coin_selection_enabled_def and_then_def await_def decode_def tb_def
      ret_def throw_def demo_env_def demo_decodes_def demo_num_ok_def demo_rejects_def new_tx_def demo_selected_def
      demo_completed_def)

lemma demo_finalize_options:
  "finalize demo_env (Some (demo_options cs)) (new_tx ()) =
     (if cs = Some False then Done (TxComplete demo_unselected) (demo_completed demo_unselected)
      else Done (TxComplete demo_selected) (demo_completed demo_selected))"
  by (cases cs)
     (simp_all add: finalize_def opt_asHash_def opt_inline_def opt_changeAddress_def
        opt_coinSelection_def coin_selection_enabled_def and_then_def await_def decode_def
        tb_def ret_def throw_def demo_env_def demo_decodes_def demo_num_ok_def demo_rejects_def new_tx_def demo_selected_def
        demo_unselected_def demo_completed_def demo_options_def)

text \<open>
  C7. Take a call of \<open>complete\<close> that succeeds, and the calls it makes on the
  engine after the loop over the tasks. The call that selects inputs from the wallet's
  utxos is among them exactly when \<open>options?.coinSelection\<close> is not \<open>false\<close>:
  it is made when the option is \<open>true\<close>, it is made when the option (or the whole
  options argument) is undefined, and it is left out only when the option is
  \<open>false\<close>.
\<close>

theorem coin_selection_three_way:
  assumes "drain t = Some (Done () t1)"
    and "complete env options t = Some (Done artifact t2)"
  shows "list_ex is_coin_selection (drop (length (calls (world t1))) (calls (world t2)))
           \<longleftrightarrow> opt_coinSelection options \<noteq> Some False"
proof -
  have "\<not> (truthy (opt_asHash options) \<and> truthy (opt_inline options))"
    using assms(2) by (auto simp: complete_def)
  then have "complete env options t = Some (finalize env options t1)"
    using assms(1) by (rule complete_after_drain)
  with assms(2) have "finalize env options t1 = Done artifact t2" by simp
  then obtain utxos a d where
    "calls (world t2) = calls (world t1)
       @ (if coin_selection_enabled options then [Add_inputs_from utxos a] else [])
       @ [Balance a d]
       @ (case present (opt_asHash options) of Some h \<Rightarrow> [Add_plutus_data h] | None \<Rightarrow> [])
       @ [Construct utxos a]"
    using finalize_calls by blast
  moreover have "coin_selection_enabled options \<longleftrightarrow> opt_coinSelection options \<noteq> Some False"
    by (cases "opt_coinSelection options") (auto simp: coin_selection_enabled_def)
  ultimately show ?thesis by (auto split: option.splits)
qed

theorem coin_selection_three_way_witness:
  "drain (new_tx ()) = Some (Done () (new_tx ()))
   \<and> complete demo_env None (new_tx ())
       = Some (Done (TxComplete demo_selected) (demo_completed demo_selected))
   \<and> complete demo_env (Some (demo_options None)) (new_tx ())
       = Some (Done (TxComplete demo_selected) (demo_completed demo_selected))
   \<and> complete demo_env (Some (demo_options (Some True))) (new_tx ())
       = Some (Done (TxComplete demo_selected) (demo_completed demo_selected))
   \<and> complete demo_env (Some (demo_options (Some False))) (new_tx ())
       = Some (Done (TxComplete demo_unselected) (demo_completed demo_unselected))
   \<and> list_ex is_coin_selection
        (drop (length (calls (world (new_tx ())))) (calls (world (demo_completed demo_selected))))
   \<and> \<not> list_ex is_coin_selection
        (drop (length (calls (world (new_tx ())))) (calls (world (demo_completed demo_unselected))))"
proof -
  note d = drain_new_tx[of "()"]
  have c1: "complete demo_env None (new_tx ())
       = Some (Done (TxComplete demo_selected) (demo_completed demo_selected))"
    using complete_after_drain[OF demo_no_conflict(1) d, where env = demo_env]
    by (simp add: demo_finalize_default)
  have c2: "complete demo_env (Some (demo_options cs)) (new_tx ()) =
    Some (if cs = Some False
          then Done (TxComplete demo_unselected) (demo_completed demo_unselected)
          else Done (TxComplete demo_selected) (demo_completed demo_selected))" for cs
    using complete_after_drain[OF demo_no_conflict(2)[of cs] d, where env = demo_env]
    by (simp add: demo_finalize_options)
  show ?thesis
    using coin_selection_three_way[OF d c1]
      coin_selection_three_way[OF d c2[of None, simplified]]
      coin_selection_three_way[OF d c2[of "Some True", simplified]]
      coin_selection_three_way[OF d c2[of "Some False", simplified]]
      d c1 c2
    by (simp add: opt_coinSelection_def demo_options_def)
qed

subsection \<open>Finalization rejects a conflicting change datum first\<close>

text \<open>
  C4. When the change datum of the options sets both \<open>asHash\<close> and \<open>inline\<close>
  (sets as tx.ts tests it everywhere: the property is truthy, that is, present and not
  the empty string), \<open>complete\<close> throws the conflicting-datum error and leaves the
  builder exactly as it was, whatever the collaborators are and whatever tasks wait in
  the queue: no task has run, the engine has received no call and nothing was awaited.
\<close>

theorem complete_conflicting_datum:
  assumes "change_datum opts = Some d"
    and "truthy (datum_asHash d)"
    and "truthy (datum_inline d)"
  shows "complete env (Some opts) t = Some (Thrown ConflictingDatumError t)"
  using assms by (simp add: complete_def opt_asHash_def opt_inline_def)

theorem complete_conflicting_datum_witness:
  "complete demo_env (Some demo_conflict) demo_queue = Some (Thrown ConflictingDatumError demo_queue)
   \<and> length (tasks demo_queue) = 3
   \<and> logged demo_queue = []
   \<and> calls (world demo_queue) = []
   \<and> io (world demo_queue) = []"
  using complete_conflicting_datum
    [of demo_conflict "\<lparr>datum_asHash = Some ''deadbeef'', datum_inline = Some ''deadbeef''\<rparr>"
        demo_env demo_queue]
  by (simp add: demo_conflict_def demo_queue_def new_tx_def recorders_def logged_def)

subsection \<open>Minting\<close>

lemma map_m_all_done:
  assumes "\<And>x. x \<in> set xs \<Longrightarrow> f x s = Done (g x) s"
  shows "map_m f xs s = Done (map g xs) s"
  using assms by (induction xs) simp_all

lemma map_m_first_throw:
  assumes "\<And>y. y \<in> set pre \<Longrightarrow> f y s = Done (g y) s" and "f x s = Thrown e s"
  shows "map_m f (pre @ x # post) s = Thrown e s"
  using assms by (induction pre) simp_all

lemma mint_entry_ok:
  assumes "take 56 (fst entry) = policy"
    and "decodes env AssetName (drop 56 (fst entry))" and "num_ok env Int_from_str (snd entry)"
  shows "mint_entry env policy entry s = Done (drop 56 (fst entry), snd entry) s"
  using assms by (simp add: mint_entry_def decode_def decode_num_def and_then_def ret_def)

lemma mint_entry_mixed:
  assumes "take 56 (fst entry) \<noteq> policy"
  shows "mint_entry env policy entry s = Thrown MixedPolicyError s"
  using assms by (simp add: mint_entry_def throw_def)

lemma redeemer_witness_ok:
  assumes "\<forall>r. present redeemer = Some r \<longrightarrow> decodes env PlutusData r"
  shows "redeemer_witness env redeemer s =
           Done (map_option (\<lambda>r. Plutus_witness r None) (present redeemer)) s"
  using assms
  by (cases "present redeemer")
     (simp_all add: redeemer_witness_def decode_def and_then_def ret_def)

lemma mint_entry_state:
  "mint_entry env policy entry s = Done x s' \<Longrightarrow> s' = s \<and> take 56 (fst entry) = policy"
  "mint_entry env policy entry s = Thrown e s' \<Longrightarrow> s' = s"
  by (auto simp: mint_entry_def and_then_def decode_def decode_num_def ret_def throw_def
      split: if_splits)

lemma map_m_mint_entry_Done:
  "map_m (mint_entry env policy) xs s = Done ys s'
     \<Longrightarrow> s' = s \<and> (\<forall>entry\<in>set xs. take 56 (fst entry) = policy)"
proof (induction xs arbitrary: ys)
  case Nil
  then show ?case by simp
next
  case (Cons x xs)
  then show ?case
    by (auto split: outcome.splits dest: mint_entry_state)
qed

lemma map_m_mint_entry_Thrown:
  "map_m (mint_entry env policy) xs s = Thrown e s' \<Longrightarrow> s' = s"
proof (induction xs)
  case Nil
  then show ?case by simp
next
  case (Cons x xs)
  then show ?case
    by (auto split: outcome.splits dest: mint_entry_state map_m_mint_entry_Done)
qed

lemma demo_policy_ids:
  "policy_ids demo_mixed = {demo_policy_a, demo_policy_b}"
  "policy_ids demo_long_name = {demo_policy_a, demo_policy_b}"
  "policy_ids demo_single = {demo_policy_a}"
  "demo_policy_a \<noteq> demo_policy_b"
  by (simp_all add: policy_ids_def demo_mixed_def demo_long_name_def demo_single_def
      demo_policy_a_def demo_policy_b_def)

lemma demo_minted:
  "minted demo_single = [(''746f6b656e31'', 10), (''746f6b656e32'', 5), ('''', 1)]"
  by (simp add: minted_def demo_single_def demo_policy_a_def)

text \<open>
  C5, as the claim states it, fails: each unit is decoded before the policy id of the
  next one is looked at, so on a map of two policy ids whose first unit has an asset
  name that the engine does not take, \<open>mintAssets\<close> throws the decoder's error, not
  the mixed-policy error.
\<close>

theorem mintAssets_decoder_first_counterexample:
  "2 \<le> card (policy_ids demo_long_name)
   \<and> mintAssets demo_env demo_long_name None (new_tx ())
       = Thrown (External Payload_decoder ''C.AssetName.new'') (new_tx ())
   \<and> External Payload_decoder ''C.AssetName.new'' \<noteq> MixedPolicyError"
proof -
  have "2 \<le> card (policy_ids demo_long_name)"
    by (simp add: demo_policy_ids)
  moreover have "mintAssets demo_env demo_long_name None (new_tx ())
       = Thrown (External Payload_decoder ''C.AssetName.new'') (new_tx ())"
    by (simp add: mintAssets_def demo_long_name_def demo_policy_a_def mint_entry_def
        and_then_def decode_def throw_def demo_env_def demo_decodes_def)
  ultimately show ?thesis by (simp add: MixedPolicyError_def)
qed

text \<open>
  C5, amended. On an asset map that holds two or more policy ids, \<open>mintAssets\<close>
  always throws at the call and leaves the builder as it was: the engine has received
  nothing, no task was pushed and none has run. When the units of the map are
  well-formed, that is, the engine decodes the asset name and the quantity of every
  entry, the error is the mixed-policy error. If the map is not empty, its units are
  well-formed and all share one policy id that the engine decodes, as it does the
  redeemer when there is one, and the builder takes the call, then \<open>mintAssets\<close>
  succeeds, however many entries the map has, and the builder has received the one mint
  directive that holds them all.
\<close>

theorem mintAssets_policy_check:
  "(2 \<le> card (policy_ids assets) \<longrightarrow> (\<exists>e. mintAssets env assets redeemer t = Thrown e t))
   \<and> ((\<forall>entry\<in>set assets.
          decodes env AssetName (drop 56 (fst entry)) \<and> num_ok env Int_from_str (snd entry))
       \<and> 2 \<le> card (policy_ids assets) \<longrightarrow>
          mintAssets env assets redeemer t = Thrown MixedPolicyError t)
   \<and> ((\<forall>entry\<in>set assets.
          decodes env AssetName (drop 56 (fst entry)) \<and> num_ok env Int_from_str (snd entry))
       \<and> policy_ids assets = {policy}
       \<and> decodes env ScriptHash policy
       \<and> (\<forall>r. present redeemer = Some r \<longrightarrow> decodes env PlutusData r)
       \<and> rejects env (calls (world t))
            (Add_mint policy (minted assets)
               (map_option (\<lambda>r. Plutus_witness r None) (present redeemer))) = None
       \<longrightarrow> mintAssets env assets redeemer t =
             Done () (t\<lparr>world := (world t)\<lparr>calls := calls (world t) @
               [Add_mint policy (minted assets)
                  (map_option (\<lambda>r. Plutus_witness r None) (present redeemer))]\<rparr>\<rparr>))"
proof (intro conjI impI)
  assume two: "2 \<le> card (policy_ids assets)"
  then have ne: "assets \<noteq> []" by (auto simp: policy_ids_def)
  then obtain e0 rest where a: "assets = e0 # rest" by (cases assets) auto
  let ?p = "take 56 (fst e0)"
  show "\<exists>e. mintAssets env assets redeemer t = Thrown e t"
  proof (cases "map_m (mint_entry env ?p) assets t")
    case (Done ys t')
    then have "\<forall>entry\<in>set assets. take 56 (fst entry) = ?p"
      by (auto dest: map_m_mint_entry_Done)
    then have "policy_ids assets = {?p}" using a by (auto simp: policy_ids_def)
    with two show ?thesis by simp
  next
    case (Thrown e t')
    then have "t' = t" by (rule map_m_mint_entry_Thrown)
    with Thrown a show ?thesis by (simp add: mintAssets_def and_then_def)
  qed
next
  assume h: "(\<forall>entry\<in>set assets.
          decodes env AssetName (drop 56 (fst entry)) \<and> num_ok env Int_from_str (snd entry))
       \<and> 2 \<le> card (policy_ids assets)"
  then have wf: "\<forall>entry\<in>set assets.
          decodes env AssetName (drop 56 (fst entry)) \<and> num_ok env Int_from_str (snd entry)"
    and two: "2 \<le> card (policy_ids assets)" by simp_all
  then have ne: "assets \<noteq> []" by (auto simp: policy_ids_def)
  then obtain e0 rest where a: "assets = e0 # rest" by (cases assets) auto
  let ?p = "take 56 (fst e0)"
  have "\<exists>entry\<in>set assets. take 56 (fst entry) \<noteq> ?p"
  proof (rule ccontr)
    assume "\<not> ?thesis"
    then have "policy_ids assets = {?p}" using a by (auto simp: policy_ids_def)
    with two show False by simp
  qed
  then obtain pre x post where s: "assets = pre @ x # post"
    and x: "take 56 (fst x) \<noteq> ?p" and pre: "\<forall>y\<in>set pre. \<not> take 56 (fst y) \<noteq> ?p"
    using split_list_first_prop[of assets "\<lambda>entry. take 56 (fst entry) \<noteq> ?p"] by blast
  have "map_m (mint_entry env ?p) (pre @ x # post) t = Thrown MixedPolicyError t"
  proof (rule map_m_first_throw)
    fix y assume "y \<in> set pre"
    then show "mint_entry env ?p y t = Done (drop 56 (fst y), snd y) t"
      using pre wf s by (intro mint_entry_ok) auto
  next
    show "mint_entry env ?p x t = Thrown MixedPolicyError t"
      using x by (rule mint_entry_mixed)
  qed
  then show "mintAssets env assets redeemer t = Thrown MixedPolicyError t"
    using a s by (simp add: mintAssets_def and_then_def)
next
  assume h: "(\<forall>entry\<in>set assets.
          decodes env AssetName (drop 56 (fst entry)) \<and> num_ok env Int_from_str (snd entry))
       \<and> policy_ids assets = {policy}
       \<and> decodes env ScriptHash policy
       \<and> (\<forall>r. present redeemer = Some r \<longrightarrow> decodes env PlutusData r)
       \<and> rejects env (calls (world t))
            (Add_mint policy (minted assets)
               (map_option (\<lambda>r. Plutus_witness r None) (present redeemer))) = None"
  then have wf: "\<forall>entry\<in>set assets.
          decodes env AssetName (drop 56 (fst entry)) \<and> num_ok env Int_from_str (snd entry)"
    by simp
  have ne: "assets \<noteq> []" using h by (auto simp: policy_ids_def)
  then obtain e0 rest where a: "assets = e0 # rest" by (cases assets) auto
  have all: "\<And>entry. entry \<in> set assets \<Longrightarrow> take 56 (fst entry) = policy"
    using h by (auto simp: policy_ids_def)
  then have p: "take 56 (fst e0) = policy" using a by simp
  have m: "map_m (mint_entry env policy) assets t = Done (minted assets) t"
    unfolding minted_def using all wf by (intro map_m_all_done mint_entry_ok) auto
  have w: "redeemer_witness env redeemer t =
           Done (map_option (\<lambda>r. Plutus_witness r None) (present redeemer)) t"
    using h by (intro redeemer_witness_ok) simp
  show "mintAssets env assets redeemer t =
                Done () (t\<lparr>world := (world t)\<lparr>calls := calls (world t) @
                  [Add_mint policy (minted assets)
                     (map_option (\<lambda>r. Plutus_witness r None) (present redeemer))]\<rparr>\<rparr>)"
    using a p m w h
    by (simp add: mintAssets_def and_then_def decode_def ret_def tb_def)
qed

theorem mintAssets_policy_check_witness:
  "2 \<le> card (policy_ids demo_long_name)
   \<and> (\<exists>e. mintAssets demo_env demo_long_name None demo_queue = Thrown e demo_queue)
   \<and> 2 \<le> card (policy_ids demo_mixed)
   \<and> mintAssets demo_env demo_mixed None demo_queue = Thrown MixedPolicyError demo_queue
   \<and> policy_ids demo_single = {demo_policy_a}
   \<and> mintAssets demo_env demo_single (Some ''d87980'') (new_tx ()) =
       Done () ((new_tx ())\<lparr>world := (world (new_tx ()))\<lparr>calls :=
         [Add_mint demo_policy_a [(''746f6b656e31'', 10), (''746f6b656e32'', 5), ('''', 1)]
            (Some (Plutus_witness ''d87980'' None))]\<rparr>\<rparr>)"
proof -
  have wf1: "\<forall>entry\<in>set demo_mixed.
      decodes demo_env AssetName (drop 56 (fst entry)) \<and> num_ok demo_env Int_from_str (snd entry)"
    by (simp add: demo_env_def demo_decodes_def demo_num_ok_def demo_mixed_def
        demo_policy_a_def demo_policy_b_def)
  have wf2: "\<forall>entry\<in>set demo_single.
      decodes demo_env AssetName (drop 56 (fst entry)) \<and> num_ok demo_env Int_from_str (snd entry)"
    by (simp add: demo_env_def demo_decodes_def demo_num_ok_def demo_single_def
        demo_policy_a_def)
  have two: "2 \<le> card (policy_ids demo_mixed)" "2 \<le> card (policy_ids demo_long_name)"
    by (simp_all add: demo_policy_ids)
  have acc: "decodes demo_env ScriptHash demo_policy_a"
    "\<forall>r. present (Some ''d87980'') = Some r \<longrightarrow> decodes demo_env PlutusData r"
    "rejects demo_env cs (Add_mint p m w) = None" for cs p m w
    by (simp_all add: demo_env_def demo_decodes_def demo_rejects_def)
  note T = mintAssets_policy_check
  have 1: "\<exists>e. mintAssets demo_env demo_long_name None demo_queue = Thrown e demo_queue"
    using T[where assets = demo_long_name and env = demo_env and redeemer = None
              and t = demo_queue, THEN conjunct1] two by blast
  have 2: "mintAssets demo_env demo_mixed None demo_queue = Thrown MixedPolicyError demo_queue"
    using T[where assets = demo_mixed and env = demo_env and redeemer = None
              and t = demo_queue, THEN conjunct2, THEN conjunct1] wf1 two
    by blast
  have 3: "mintAssets demo_env demo_single (Some ''d87980'') (new_tx ()) =
       Done () ((new_tx ())\<lparr>world := (world (new_tx ()))\<lparr>calls :=
         [Add_mint demo_policy_a [(''746f6b656e31'', 10), (''746f6b656e32'', 5), ('''', 1)]
            (Some (Plutus_witness ''d87980'' None))]\<rparr>\<rparr>)"
    using T[where assets = demo_single and env = demo_env and policy = demo_policy_a
              and redeemer = "Some ''d87980''" and t = "new_tx ()",
            THEN conjunct2, THEN conjunct2] wf2 acc demo_policy_ids demo_minted
    by (simp add: new_tx_def)
  from 1 2 3 two demo_policy_ids show ?thesis by blast
qed

text \<open>
  C9. \<open>mintAssets\<close> on an asset map without units throws: the policy id is read from
  the first unit, which does not exist. Nothing is registered with the engine, and the
  error is the runtime's, not the mixed-policy error.
\<close>

theorem mintAssets_empty:
  "mintAssets env [] redeemer t = Thrown TypeError t \<and> TypeError \<noteq> MixedPolicyError"
  by (simp add: mintAssets_def throw_def MixedPolicyError_def)

subsection \<open>Outputs with data\<close>

lemma present_None: "present x = None \<longleftrightarrow> \<not> truthy x"
  by (cases x) auto

lemma ret_Thrown: "ret a t \<noteq> Thrown e t'"
  by (simp add: ret_def)

lemma throw_Thrown: "throw e t = Thrown e' t' \<longleftrightarrow> e' = e \<and> t' = t"
  by (auto simp: throw_def)

lemma tb_Thrown:
  "tb env c t = Thrown e t' \<longleftrightarrow>
     (\<exists>m. rejects env (calls (world t)) c = Some m \<and> e = External Builder_call m \<and> t' = t)"
  by (auto simp: tb_def split: option.splits)

lemma decode_Thrown:
  "decode env k what s t = Thrown e t' \<longleftrightarrow>
     \<not> decodes env k s \<and> e = External (origin_of k) what \<and> t' = t"
  by (auto simp: decode_def ret_def throw_def)

lemma assetsToValue_Thrown:
  "assetsToValue env a t = Thrown e t' \<Longrightarrow> \<exists>k m. e = External k m"
  by (auto simp: assetsToValue_def ret_def throw_def split: if_splits)

lemma script_ref_Thrown:
  "script_ref env sr t = Thrown e t' \<Longrightarrow> \<exists>k m. e = External k m"
  by (auto simp: script_ref_def and_then_Thrown decode_Thrown ret_Thrown
      split: option.splits script_type.splits)

text \<open>\<open>payToAddressWithData\<close> throws its own conflict error or what a collaborator throws.\<close>

lemma payToAddressWithData_Thrown:
  assumes "payToAddressWithData env a od assets t = Thrown e t'"
  shows "e = ConflictingDatumError \<or> (\<exists>k m. e = External k m)"
  using assms unfolding payToAddressWithData_def Let_def
  by (auto simp: and_then_Thrown throw_Thrown tb_Thrown decode_Thrown ret_Thrown
      dest: assetsToValue_Thrown script_ref_Thrown split: if_splits option.splits)

lemma payToAddressWithData_as_object:
  "payToAddressWithData env a (Obj (as_object od)) assets = payToAddressWithData env a od assets"
  by (simp add: payToAddressWithData_def)

lemma payToContract_set:
  assumes "truthy (asHash (as_object od)) \<or> truthy (inline (as_object od))"
  shows "payToContract env a od assets t = payToAddressWithData env a od assets t"
  using assms by (auto simp: payToContract_def Let_def payToAddressWithData_as_object)

lemma payToContract_unset:
  assumes "\<not> truthy (asHash (as_object od))" and "\<not> truthy (inline (as_object od))"
  shows "payToContract env a od assets t = Thrown UnspendableOutputError t"
  using assms by (simp add: payToContract_def throw_def)

lemma payToAddressWithData_conflict:
  assumes "truthy (asHash (as_object od))" and "truthy (inline (as_object od))"
  shows "payToAddressWithData env a od assets t = Thrown ConflictingDatumError t"
  using assms by (simp add: payToAddressWithData_def throw_def)

lemma script_ref_ok:
  assumes "\<forall>s. sr = Some s \<longrightarrow>
     decodes env (case script_type s of Native \<Rightarrow> NativeScript | PlutusV1 \<Rightarrow> PlutusScript
                  | PlutusV2 \<Rightarrow> PlutusScript) (script_body s)"
  shows "script_ref env sr t = Done sr t"
  using assms
  by (auto simp: script_ref_def and_then_def decode_def ret_def
      split: option.splits script_type.splits)

lemma payToAddressWithData_ok:
  fixes t :: "'u tx"
  assumes one: "truthy (asHash od) \<noteq> truthy (inline od)"
    and a: "decodes env Address_bech32 a" and v: "assetsToValue_ok env assets"
    and h: "\<forall>h. present (asHash od) = Some h \<longrightarrow> decodes env PlutusData h"
    and i: "\<forall>i. present (inline od) = Some i \<longrightarrow> decodes env PlutusData i"
    and s: "\<forall>s. scriptRef od = Some s \<longrightarrow>
     decodes env (case script_type s of Native \<Rightarrow> NativeScript | PlutusV1 \<Rightarrow> PlutusScript
                  | PlutusV2 \<Rightarrow> PlutusScript) (script_body s)"
    and r: "\<forall>h. present (asHash od) = Some h \<longrightarrow>
              rejects env (calls (world t)) (Add_plutus_data h) = None"
      "rejects env (calls (world t) @ datum_calls od)
         (Add_output \<lparr>out_address = a, out_value = assets, out_datum = output_datum od,
                      out_script_ref = scriptRef od\<rparr>) = None"
  shows "payToAddressWithData env a (Obj od) assets t =
           Done () (t\<lparr>world := (world t)\<lparr>calls := calls (world t) @ datum_calls od @
             [Add_output \<lparr>out_address = a, out_value = assets, out_datum = output_datum od,
                          out_script_ref = scriptRef od\<rparr>]\<rparr>\<rparr>)"
proof -
  have sr: "script_ref env (scriptRef od) t' = Done (scriptRef od) t'" for t' :: "'u tx"
    using s by (rule script_ref_ok)
  have nc: "\<not> (truthy (asHash od) \<and> truthy (inline od))" using one by auto
  show ?thesis
  proof (cases "present (asHash od)")
    case (Some x)
    then have th: "truthy (asHash od)" by (cases "asHash od") (auto split: if_splits)
    then have ti: "\<not> truthy (inline od)" using one by simp
    show ?thesis
      using Some th ti a v h r sr
      by (simp add: payToAddressWithData_def and_then_def decode_def ret_def tb_def
          assetsToValue_def datum_calls_def output_datum_def)
  next
    case None
    then have th: "\<not> truthy (asHash od)" by (simp add: present_None)
    then have "truthy (inline od)" using one by simp
    then obtain y where y: "present (inline od) = Some y"
      by (cases "present (inline od)") (auto simp: present_None)
    show ?thesis
      using None y th a v i r sr
      by (simp add: payToAddressWithData_def and_then_def decode_def ret_def tb_def
          assetsToValue_def datum_calls_def output_datum_def)
  qed
qed

lemma demo_accepts:
  "decodes demo_env Address_bech32 s"
  "decodes demo_env PlutusData s"
  "decodes demo_env PlutusScript s"
  "assetsToValue_ok demo_env assets"
  "rejects demo_env cs (Add_output out) = None"
  "rejects demo_env cs (Add_plutus_data d) = None"
  by (simp_all add: demo_env_def demo_decodes_def demo_num_ok_def demo_rejects_def)

text \<open>
  C6, as the claim states it, fails: with both \<open>asHash\<close> and \<open>inline\<close> set,
  \<open>payToContract\<close> passes its own check and then fails in \<open>payToAddressWithData\<close>.
\<close>

theorem payToContract_both_set_counterexample:
  "truthy (asHash demo_both)
   \<and> truthy (inline demo_both)
   \<and> payToContract demo_env ''addr_script'' (Obj demo_both) demo_assets (new_tx ())
       = Thrown ConflictingDatumError (new_tx ())"
  by (simp add: payToContract_def payToAddressWithData_def demo_both_def throw_def)

text \<open>
  C6, amended. With neither \<open>asHash\<close> nor \<open>inline\<close> set (truthy),
  \<open>payToContract\<close> throws the unspendable-output error and leaves the builder as it
  was. With at least one of them set it is \<open>payToAddressWithData\<close> on the same
  arguments, in what it returns, in what it throws and in the builder it leaves: with
  both set that is the conflicting-datum error; with exactly one set it succeeds as soon
  as the engine decodes the address, the value, the datum and the script reference and
  this builder, in the state it is in, takes the calls, and the builder has then received
  the datum's body, when the datum goes by hash, and the output.
\<close>

theorem payToContract_datum_check:
  "(\<not> truthy (asHash od) \<and> \<not> truthy (inline od) \<longrightarrow>
      payToContract env a (Obj od) assets t = Thrown UnspendableOutputError t)
   \<and> (truthy (asHash od) \<or> truthy (inline od) \<longrightarrow>
      payToContract env a (Obj od) assets t = payToAddressWithData env a (Obj od) assets t)
   \<and> (truthy (asHash od) \<and> truthy (inline od) \<longrightarrow>
      payToContract env a (Obj od) assets t = Thrown ConflictingDatumError t)
   \<and> (truthy (asHash od) \<noteq> truthy (inline od)
      \<and> decodes env Address_bech32 a \<and> assetsToValue_ok env assets
      \<and> (\<forall>h. present (asHash od) = Some h \<longrightarrow> decodes env PlutusData h)
      \<and> (\<forall>i. present (inline od) = Some i \<longrightarrow> decodes env PlutusData i)
      \<and> (\<forall>s. scriptRef od = Some s \<longrightarrow>
            decodes env (case script_type s of Native \<Rightarrow> NativeScript
                         | PlutusV1 \<Rightarrow> PlutusScript | PlutusV2 \<Rightarrow> PlutusScript) (script_body s))
      \<and> (\<forall>h. present (asHash od) = Some h \<longrightarrow>
            rejects env (calls (world t)) (Add_plutus_data h) = None)
      \<and> rejects env (calls (world t) @ datum_calls od)
           (Add_output \<lparr>out_address = a, out_value = assets, out_datum = output_datum od,
                        out_script_ref = scriptRef od\<rparr>) = None \<longrightarrow>
      payToContract env a (Obj od) assets t =
        Done () (t\<lparr>world := (world t)\<lparr>calls := calls (world t) @ datum_calls od @
          [Add_output \<lparr>out_address = a, out_value = assets, out_datum = output_datum od,
                       out_script_ref = scriptRef od\<rparr>]\<rparr>\<rparr>))"
proof (intro conjI impI)
  assume "\<not> truthy (asHash od) \<and> \<not> truthy (inline od)"
  then show "payToContract env a (Obj od) assets t = Thrown UnspendableOutputError t"
    by (intro payToContract_unset) simp_all
next
  assume "truthy (asHash od) \<or> truthy (inline od)"
  then show "payToContract env a (Obj od) assets t
               = payToAddressWithData env a (Obj od) assets t"
    by (intro payToContract_set) simp
next
  assume b: "truthy (asHash od) \<and> truthy (inline od)"
  then have "payToContract env a (Obj od) assets t
               = payToAddressWithData env a (Obj od) assets t"
    by (intro payToContract_set) simp
  also have "\<dots> = Thrown ConflictingDatumError t"
    using b by (intro payToAddressWithData_conflict) simp_all
  finally show "payToContract env a (Obj od) assets t = Thrown ConflictingDatumError t" .
next
  assume h: "truthy (asHash od) \<noteq> truthy (inline od)
      \<and> decodes env Address_bech32 a \<and> assetsToValue_ok env assets
      \<and> (\<forall>h. present (asHash od) = Some h \<longrightarrow> decodes env PlutusData h)
      \<and> (\<forall>i. present (inline od) = Some i \<longrightarrow> decodes env PlutusData i)
      \<and> (\<forall>s. scriptRef od = Some s \<longrightarrow>
            decodes env (case script_type s of Native \<Rightarrow> NativeScript
                         | PlutusV1 \<Rightarrow> PlutusScript | PlutusV2 \<Rightarrow> PlutusScript) (script_body s))
      \<and> (\<forall>h. present (asHash od) = Some h \<longrightarrow>
            rejects env (calls (world t)) (Add_plutus_data h) = None)
      \<and> rejects env (calls (world t) @ datum_calls od)
           (Add_output \<lparr>out_address = a, out_value = assets, out_datum = output_datum od,
                        out_script_ref = scriptRef od\<rparr>) = None"
  then have "truthy (asHash od) \<or> truthy (inline od)" by auto
  then have "payToContract env a (Obj od) assets t
               = payToAddressWithData env a (Obj od) assets t"
    by (intro payToContract_set) simp
  moreover have "payToAddressWithData env a (Obj od) assets t =
        Done () (t\<lparr>world := (world t)\<lparr>calls := calls (world t) @ datum_calls od @
          [Add_output \<lparr>out_address = a, out_value = assets, out_datum = output_datum od,
                       out_script_ref = scriptRef od\<rparr>]\<rparr>\<rparr>)"
    using h by (intro payToAddressWithData_ok) simp_all
  ultimately show "payToContract env a (Obj od) assets t =
        Done () (t\<lparr>world := (world t)\<lparr>calls := calls (world t) @ datum_calls od @
          [Add_output \<lparr>out_address = a, out_value = assets, out_datum = output_datum od,
                       out_script_ref = scriptRef od\<rparr>]\<rparr>\<rparr>)" by simp
qed

theorem payToContract_datum_check_witness:
  "payToContract demo_env ''addr_script'' (Obj demo_no_datum) demo_assets (new_tx ())
     = Thrown UnspendableOutputError (new_tx ())
   \<and> payToContract demo_env ''addr_script'' (Obj demo_hash_only) demo_assets (new_tx ())
     = payToAddressWithData demo_env ''addr_script'' (Obj demo_hash_only) demo_assets (new_tx ())
   \<and> payToContract demo_env ''addr_script'' (Obj demo_both) demo_assets (new_tx ())
     = Thrown ConflictingDatumError (new_tx ())
   \<and> payToContract demo_env ''addr_script'' (Obj demo_inline_only) demo_assets (new_tx ())
     = Done () ((new_tx ())\<lparr>world := (world (new_tx ()))\<lparr>calls :=
         [Add_output \<lparr>out_address = ''addr_script'', out_value = demo_assets,
                      out_datum = Some (New_data ''d87980''),
                      out_script_ref = scriptRef demo_inline_only\<rparr>]\<rparr>\<rparr>)
   \<and> payToContract demo_env ''addr_script'' (Obj demo_hash_only) demo_assets demo_queue
     = Done () (demo_queue\<lparr>world := (world demo_queue)\<lparr>calls :=
         calls (world demo_queue) @
         [Add_plutus_data ''d87980'',
          Add_output \<lparr>out_address = ''addr_script'', out_value = demo_assets,
                       out_datum = Some (New_data_hash ''d87980''),
                       out_script_ref = None\<rparr>]\<rparr>\<rparr>)"
proof -
  note T = payToContract_datum_check[where env = demo_env and a = "''addr_script''"
             and assets = demo_assets]
  have 1: "payToContract demo_env ''addr_script'' (Obj demo_no_datum) demo_assets (new_tx ())
     = Thrown UnspendableOutputError (new_tx ())"
    using T[where od = demo_no_datum and t = "new_tx ()", THEN conjunct1]
    by (simp add: demo_no_datum_def)
  have 2: "payToContract demo_env ''addr_script'' (Obj demo_hash_only) demo_assets (new_tx ())
     = payToAddressWithData demo_env ''addr_script'' (Obj demo_hash_only) demo_assets (new_tx ())"
    using T[where od = demo_hash_only and t = "new_tx ()", THEN conjunct2, THEN conjunct1]
    by (simp add: demo_hash_only_def)
  have 3: "payToContract demo_env ''addr_script'' (Obj demo_both) demo_assets (new_tx ())
     = Thrown ConflictingDatumError (new_tx ())"
    using T[where od = demo_both and t = "new_tx ()",
            THEN conjunct2, THEN conjunct2, THEN conjunct1]
    by (simp add: demo_both_def)
  have 4: "payToContract demo_env ''addr_script'' (Obj demo_inline_only) demo_assets (new_tx ())
     = Done () ((new_tx ())\<lparr>world := (world (new_tx ()))\<lparr>calls :=
         [Add_output \<lparr>out_address = ''addr_script'', out_value = demo_assets,
                      out_datum = Some (New_data ''d87980''),
                      out_script_ref = scriptRef demo_inline_only\<rparr>]\<rparr>\<rparr>)"
    using T[where od = demo_inline_only and t = "new_tx ()",
            THEN conjunct2, THEN conjunct2, THEN conjunct2]
    by (simp add: demo_inline_only_def demo_accepts datum_calls_def output_datum_def
        new_tx_def)
  have 5: "payToContract demo_env ''addr_script'' (Obj demo_hash_only) demo_assets demo_queue
     = Done () (demo_queue\<lparr>world := (world demo_queue)\<lparr>calls :=
         calls (world demo_queue) @
         [Add_plutus_data ''d87980'',
          Add_output \<lparr>out_address = ''addr_script'', out_value = demo_assets,
                       out_datum = Some (New_data_hash ''d87980''),
                       out_script_ref = None\<rparr>]\<rparr>\<rparr>)"
    using T[where od = demo_hash_only and t = demo_queue,
            THEN conjunct2, THEN conjunct2, THEN conjunct2]
    by (simp add: demo_hash_only_def demo_accepts datum_calls_def output_datum_def)
  from 1 2 3 4 5 show ?thesis by blast
qed

text \<open>
  C10, as the claim states it, fails: the empty string is a datum string, it makes the
  object \<open>{asHash: ""}\<close>, whose \<open>asHash\<close> is falsy, and \<open>payToContract\<close> throws
  the unspendable-output error.
\<close>

theorem bare_empty_string_counterexample:
  "payToContract demo_env ''addr_script'' (Str '''') demo_assets (new_tx ())
     = Thrown UnspendableOutputError (new_tx ())"
  by (simp add: payToContract_def throw_def)

text \<open>
  C10, amended. For every address, asset map and datum string \<open>d\<close>, the bare string
  \<open>d\<close> as the \<open>outputData\<close> of \<open>payToAddressWithData\<close> or of \<open>payToContract\<close>
  does exactly what the object \<open>{asHash: d}\<close> does; and \<open>payToContract\<close> with a
  bare datum string that is not empty never throws the unspendable-output error.
\<close>

theorem bare_datum_string:
  "payToAddressWithData env a (Str d) assets t
     = payToAddressWithData env a (Obj \<lparr>asHash = Some d, inline = None, scriptRef = None\<rparr>) assets t
   \<and> payToContract env a (Str d) assets t
     = payToContract env a (Obj \<lparr>asHash = Some d, inline = None, scriptRef = None\<rparr>) assets t
   \<and> (d \<noteq> [] \<longrightarrow> (\<forall>t'. payToContract env a (Str d) assets t \<noteq> Thrown UnspendableOutputError t'))"
proof (intro conjI impI allI)
  show "payToAddressWithData env a (Str d) assets t
     = payToAddressWithData env a (Obj \<lparr>asHash = Some d, inline = None, scriptRef = None\<rparr>) assets t"
    by (simp add: payToAddressWithData_def)
  show "payToContract env a (Str d) assets t
     = payToContract env a (Obj \<lparr>asHash = Some d, inline = None, scriptRef = None\<rparr>) assets t"
    by (simp add: payToContract_def)
next
  fix t'
  assume d: "d \<noteq> []"
  then have eq: "payToContract env a (Str d) assets t
                   = payToAddressWithData env a (Str d) assets t"
    by (intro payToContract_set) simp
  show "payToContract env a (Str d) assets t \<noteq> Thrown UnspendableOutputError t'"
  proof
    assume "payToContract env a (Str d) assets t = Thrown UnspendableOutputError t'"
    then have "payToAddressWithData env a (Str d) assets t = Thrown UnspendableOutputError t'"
      using eq by simp
    then have "UnspendableOutputError = ConflictingDatumError
                 \<or> (\<exists>k m. UnspendableOutputError = External k m)"
      by (rule payToAddressWithData_Thrown)
    then show False by (simp add: UnspendableOutputError_def ConflictingDatumError_def)
  qed
qed

theorem bare_datum_string_witness:
  "''d87980'' \<noteq> []
   \<and> payToContract demo_env ''addr_script'' (Str ''d87980'') demo_assets (new_tx ())
       = payToContract demo_env ''addr_script'' (Obj demo_hash_only) demo_assets (new_tx ())
   \<and> payToContract demo_env ''addr_script'' (Str ''d87980'') demo_assets (new_tx ())
       = Done () ((new_tx ())\<lparr>world := (world (new_tx ()))\<lparr>calls :=
           [Add_plutus_data ''d87980'',
            Add_output \<lparr>out_address = ''addr_script'', out_value = demo_assets,
                        out_datum = Some (New_data_hash ''d87980''), out_script_ref = None\<rparr>]\<rparr>\<rparr>)
   \<and> payToContract demo_env ''addr_script'' (Str ''d87980'') demo_assets (new_tx ())
       \<noteq> Thrown UnspendableOutputError (new_tx ())"
proof -
  have "payToContract demo_env ''addr_script'' (Str ''d87980'') demo_assets (new_tx ())
       = Done () ((new_tx ())\<lparr>world := (world (new_tx ()))\<lparr>calls :=
           [Add_plutus_data ''d87980'',
            Add_output \<lparr>out_address = ''addr_script'', out_value = demo_assets,
                        out_datum = Some (New_data_hash ''d87980''), out_script_ref = None\<rparr>]\<rparr>\<rparr>)"
    by (simp add: payToContract_def payToAddressWithData_def and_then_def decode_def ret_def
        tb_def assetsToValue_def script_ref_def demo_accepts new_tx_def)
  then show ?thesis
    using bare_datum_string[of demo_env "''addr_script''" "''d87980''" demo_assets "new_tx ()"]
    by (simp add: demo_hash_only_def)
qed

subsection \<open>Stake\<close>

lemma decode_num_Thrown:
  "decode_num env k what n t = Thrown e t' \<longleftrightarrow>
     \<not> num_ok env k n \<and> e = External Payload_decoder what \<and> t' = t"
  by (auto simp: decode_num_def ret_def throw_def)

lemma redeemer_witness_Thrown:
  "redeemer_witness env r t = Thrown e t' \<Longrightarrow> \<exists>m. e = External Payload_decoder m"
  by (auto simp: redeemer_witness_def and_then_Thrown decode_Thrown ret_Thrown
      split: option.splits)

lemma reward_credential_non_reward:
  assumes "getAddressDetails env a = Inr d" and "address_type d \<noteq> Reward"
  shows "reward_credential env a s = Thrown Not_a_reward_address s"
  using assms by (simp add: reward_credential_def throw_def split: option.splits)

lemma reward_credential_reward:
  assumes "getAddressDetails env a = Inr d" and "address_type d = Reward"
    and "stakeCredential d = Some sc"
    and "decodes env (case credential_type sc of Key \<Rightarrow> Ed25519KeyHash_bytes | Script \<Rightarrow> ScriptHash)
           (hash sc)"
  shows "reward_credential env a s =
           Done (case credential_type sc of Key \<Rightarrow> From_keyhash (hash sc)
                 | Script \<Rightarrow> From_scripthash (hash sc)) s"
  using assms
  by (cases "credential_type sc")
     (simp_all add: reward_credential_def and_then_def decode_def ret_def)

lemma stake_operations_non_reward:
  assumes "getAddressDetails env a = Inr d" and "address_type d \<noteq> Reward"
  shows "delegateTo env a pool r t = Thrown Not_a_reward_address t"
    and "registerStake env a t = Thrown Not_a_reward_address t"
    and "deregisterStake env a r t = Thrown Not_a_reward_address t"
  using reward_credential_non_reward[OF assms, of t]
  by (simp_all add: delegateTo_def registerStake_def deregisterStake_def and_then_def)

text \<open>Once the credential is resolved, what is left to throw is a payload or the builder.\<close>

lemma stake_operations_reward:
  assumes "reward_credential env a t = Done c t"
  shows "delegateTo env a pool r t = Thrown e t' \<Longrightarrow> \<not> InvalidAddress e"
    and "registerStake env a t = Thrown e t' \<Longrightarrow> \<not> InvalidAddress e"
    and "deregisterStake env a r t = Thrown e t' \<Longrightarrow> \<not> InvalidAddress e"
  using assms
  by (auto simp: delegateTo_def registerStake_def deregisterStake_def and_then_Thrown
      decode_Thrown tb_Thrown dest!: redeemer_witness_Thrown)

lemma withdraw_reward:
  assumes "decodes env Address_bech32 a" and "is_reward env a"
  shows "withdraw env a amount redeemer t =
           and_then (decode_num env BigNum ''C.BigNum.from_str'' amount) (\<lambda>n.
           and_then (redeemer_witness env redeemer) (\<lambda>w.
           tb env (Add_withdrawal a n w))) t"
  using assms
  by (simp add: withdraw_def reward_argument_def and_then_def decode_def ret_def
      split: outcome.splits)

lemma withdraw_reward_Thrown:
  assumes "decodes env Address_bech32 a" and "is_reward env a"
    and "withdraw env a amount redeemer t = Thrown e t'"
  shows "\<not> InvalidAddress e"
  using assms(3) unfolding withdraw_reward[OF assms(1,2)]
  by (auto simp: and_then_Thrown decode_num_Thrown tb_Thrown dest!: redeemer_witness_Thrown)

lemma withdraw_non_reward:
  assumes "decodes env Address_bech32 a" and "\<not> is_reward env a"
    and "num_ok env BigNum amount"
    and "\<forall>x. present redeemer = Some x \<longrightarrow> decodes env PlutusData x"
  shows "withdraw env a amount redeemer t =
           Thrown (External Address_kind ''expected instance of RewardAddress'') t"
  using assms redeemer_witness_ok[of redeemer env t]
  by (simp add: withdraw_def reward_argument_def and_then_def decode_def decode_num_def
      ret_def throw_def)

lemma demo_stake_details:
  "getAddressDetails demo_env ''stake_key'' =
     Inr \<lparr>address_type = Reward, paymentCredential = None,
          stakeCredential = Some \<lparr>credential_type = Key, hash = ''aa''\<rparr>\<rparr>"
  "getAddressDetails demo_env ''addr_base'' =
     Inr \<lparr>address_type = Base,
          paymentCredential = Some \<lparr>credential_type = Key, hash = ''cc''\<rparr>,
          stakeCredential = Some \<lparr>credential_type = Key, hash = ''aa''\<rparr>\<rparr>"
  "is_reward demo_env ''stake_key''"
  "\<not> is_reward demo_env ''addr_base''"
  "decodes demo_env Address_bech32 s"
  "decodes demo_env Ed25519KeyHash_bytes s"
  "num_ok demo_env BigNum 5000000"
  by (simp_all add: demo_env_def demo_details_def demo_decodes_def demo_num_ok_def)

text \<open>
  C1, as the claim states it, fails. \<open>withdraw\<close> has no check of its own: the kind of
  the address is checked by the engine when \<open>add_withdrawal\<close> is called, after the
  amount and the redeemer have been decoded. On a base address and an amount that the
  engine does not take as an unsigned 64-bit number, \<open>withdraw\<close> throws the error of
  the number's decoder, which is not an invalid-address error.
\<close>

theorem withdraw_amount_first_counterexample:
  "decodes demo_env Address_bech32 ''addr_base''
   \<and> \<not> is_reward demo_env ''addr_base''
   \<and> withdraw demo_env ''addr_base'' (- 5) None (new_tx ())
       = Thrown (External Payload_decoder ''C.BigNum.from_str'') (new_tx ())
   \<and> \<not> InvalidAddress (External Payload_decoder ''C.BigNum.from_str'')"
  by (simp add: withdraw_def and_then_def decode_def decode_num_def ret_def throw_def
      demo_env_def demo_decodes_def demo_num_ok_def)

text \<open>
  C1, amended. Let \<open>a\<close> be a well-formed reward address: \<open>getAddressDetails\<close>
  resolves it to a reward address with a stake credential whose hash the engine decodes,
  and the engine decodes it as an address and takes it as a reward address. Then the
  credential of \<open>delegateTo\<close>, \<open>registerStake\<close> and \<open>deregisterStake\<close> is
  resolved, \<open>withdraw\<close> goes on with the reward address, and none of the four
  operations throws an invalid-address error, whatever its other arguments. Let \<open>a\<close>
  be an address of another kind: \<open>getAddressDetails\<close> resolves it to another kind,
  the engine decodes it and does not take it as a reward address. Then
  \<open>delegateTo\<close>, \<open>registerStake\<close> and \<open>deregisterStake\<close> throw the invalid-address
  error of tx.ts, whatever their other arguments, and \<open>withdraw\<close> throws the
  invalid-address error of the engine when the engine decodes the amount and the
  redeemer; each leaves the builder as it was.
\<close>

theorem stake_address_kind:
  "(getAddressDetails env a = Inr d \<and> address_type d = Reward \<and> stakeCredential d = Some sc
      \<and> decodes env (case credential_type sc of Key \<Rightarrow> Ed25519KeyHash_bytes
                      | Script \<Rightarrow> ScriptHash) (hash sc)
      \<and> decodes env Address_bech32 a \<and> is_reward env a \<longrightarrow>
      reward_credential env a t =
        Done (case credential_type sc of Key \<Rightarrow> From_keyhash (hash sc)
              | Script \<Rightarrow> From_scripthash (hash sc)) t
      \<and> withdraw env a amount redeemer t =
          and_then (decode_num env BigNum ''C.BigNum.from_str'' amount) (\<lambda>n.
          and_then (redeemer_witness env redeemer) (\<lambda>w.
          tb env (Add_withdrawal a n w))) t
      \<and> (\<forall>e t'. delegateTo env a pool redeemer t = Thrown e t' \<longrightarrow> \<not> InvalidAddress e)
      \<and> (\<forall>e t'. registerStake env a t = Thrown e t' \<longrightarrow> \<not> InvalidAddress e)
      \<and> (\<forall>e t'. deregisterStake env a redeemer t = Thrown e t' \<longrightarrow> \<not> InvalidAddress e)
      \<and> (\<forall>e t'. withdraw env a amount redeemer t = Thrown e t' \<longrightarrow> \<not> InvalidAddress e))
   \<and> (getAddressDetails env a = Inr d \<and> address_type d \<noteq> Reward
      \<and> decodes env Address_bech32 a \<and> \<not> is_reward env a \<longrightarrow>
      InvalidAddress Not_a_reward_address
      \<and> delegateTo env a pool redeemer t = Thrown Not_a_reward_address t
      \<and> registerStake env a t = Thrown Not_a_reward_address t
      \<and> deregisterStake env a redeemer t = Thrown Not_a_reward_address t
      \<and> InvalidAddress (External Address_kind ''expected instance of RewardAddress'')
      \<and> (num_ok env BigNum amount
          \<and> (\<forall>x. present redeemer = Some x \<longrightarrow> decodes env PlutusData x) \<longrightarrow>
          withdraw env a amount redeemer t =
            Thrown (External Address_kind ''expected instance of RewardAddress'') t))"
proof (intro conjI impI)
  assume h: "getAddressDetails env a = Inr d \<and> address_type d = Reward
      \<and> stakeCredential d = Some sc
      \<and> decodes env (case credential_type sc of Key \<Rightarrow> Ed25519KeyHash_bytes
                      | Script \<Rightarrow> ScriptHash) (hash sc)
      \<and> decodes env Address_bech32 a \<and> is_reward env a"
  show c: "reward_credential env a t =
        Done (case credential_type sc of Key \<Rightarrow> From_keyhash (hash sc)
              | Script \<Rightarrow> From_scripthash (hash sc)) t"
    using h by (intro reward_credential_reward[where d = d]) simp_all
  show "withdraw env a amount redeemer t =
          and_then (decode_num env BigNum ''C.BigNum.from_str'' amount) (\<lambda>n.
          and_then (redeemer_witness env redeemer) (\<lambda>w.
          tb env (Add_withdrawal a n w))) t"
    using h by (intro withdraw_reward) simp_all
  show "\<forall>e t'. delegateTo env a pool redeemer t = Thrown e t' \<longrightarrow> \<not> InvalidAddress e"
    using stake_operations_reward(1)[OF c] by blast
  show "\<forall>e t'. registerStake env a t = Thrown e t' \<longrightarrow> \<not> InvalidAddress e"
    using stake_operations_reward(2)[OF c] by blast
  show "\<forall>e t'. deregisterStake env a redeemer t = Thrown e t' \<longrightarrow> \<not> InvalidAddress e"
    using stake_operations_reward(3)[OF c] by blast
  show "\<forall>e t'. withdraw env a amount redeemer t = Thrown e t' \<longrightarrow> \<not> InvalidAddress e"
    using h withdraw_reward_Thrown[of env a amount redeemer t] by blast
next
  assume h: "getAddressDetails env a = Inr d \<and> address_type d \<noteq> Reward
      \<and> decodes env Address_bech32 a \<and> \<not> is_reward env a"
  show "InvalidAddress Not_a_reward_address" by (simp add: Not_a_reward_address_def)
  show "delegateTo env a pool redeemer t = Thrown Not_a_reward_address t"
    using h by (intro stake_operations_non_reward(1)[where d = d]) simp_all
  show "registerStake env a t = Thrown Not_a_reward_address t"
    using h by (intro stake_operations_non_reward(2)[where d = d]) simp_all
  show "deregisterStake env a redeemer t = Thrown Not_a_reward_address t"
    using h by (intro stake_operations_non_reward(3)[where d = d]) simp_all
  show "InvalidAddress (External Address_kind ''expected instance of RewardAddress'')"
    by simp
  assume "num_ok env BigNum amount
          \<and> (\<forall>x. present redeemer = Some x \<longrightarrow> decodes env PlutusData x)"
  with h show "withdraw env a amount redeemer t =
            Thrown (External Address_kind ''expected instance of RewardAddress'') t"
    by (intro withdraw_non_reward) simp_all
qed

theorem stake_address_kind_witness:
  "reward_credential demo_env ''stake_key'' (new_tx ()) = Done (From_keyhash ''aa'') (new_tx ())
   \<and> registerStake demo_env ''stake_key'' (new_tx ())
       = Done () ((new_tx ())\<lparr>world := (world (new_tx ()))\<lparr>calls :=
           [Add_certificate (Stake_registration (From_keyhash ''aa'')) None]\<rparr>\<rparr>)
   \<and> withdraw demo_env ''stake_key'' 5000000 None (new_tx ())
       = Done () ((new_tx ())\<lparr>world := (world (new_tx ()))\<lparr>calls :=
           [Add_withdrawal ''stake_key'' 5000000 None]\<rparr>\<rparr>)
   \<and> InvalidAddress Not_a_reward_address
   \<and> delegateTo demo_env ''addr_base'' ''pool1'' None (new_tx ())
       = Thrown Not_a_reward_address (new_tx ())
   \<and> registerStake demo_env ''addr_base'' (new_tx ()) = Thrown Not_a_reward_address (new_tx ())
   \<and> deregisterStake demo_env ''addr_base'' None (new_tx ())
       = Thrown Not_a_reward_address (new_tx ())
   \<and> InvalidAddress (External Address_kind ''expected instance of RewardAddress'')
   \<and> withdraw demo_env ''addr_base'' 5000000 None (new_tx ())
       = Thrown (External Address_kind ''expected instance of RewardAddress'') (new_tx ())"
proof -
  note A = stake_address_kind[where env = demo_env and a = "''stake_key''"
      and d = "\<lparr>address_type = Reward, paymentCredential = None,
                stakeCredential = Some \<lparr>credential_type = Key, hash = ''aa''\<rparr>\<rparr>"
      and sc = "\<lparr>credential_type = Key, hash = ''aa''\<rparr>"
      and t = "new_tx ()" and amount = 5000000 and redeemer = None and pool = "''pool1''",
      THEN conjunct1]
  note B = stake_address_kind[where env = demo_env and a = "''addr_base''"
      and d = "\<lparr>address_type = Base,
                paymentCredential = Some \<lparr>credential_type = Key, hash = ''cc''\<rparr>,
                stakeCredential = Some \<lparr>credential_type = Key, hash = ''aa''\<rparr>\<rparr>"
      and t = "new_tx ()" and amount = 5000000 and redeemer = None and pool = "''pool1''",
      THEN conjunct2]
  have a: "reward_credential demo_env ''stake_key'' (new_tx ())
             = Done (From_keyhash ''aa'') (new_tx ())"
    and w: "withdraw demo_env ''stake_key'' 5000000 None (new_tx ()) =
          and_then (decode_num demo_env BigNum ''C.BigNum.from_str'' 5000000) (\<lambda>n.
          and_then (redeemer_witness demo_env None) (\<lambda>w.
          tb demo_env (Add_withdrawal ''stake_key'' n w))) (new_tx ())"
    using A by (simp_all add: demo_stake_details)
  have r: "registerStake demo_env ''stake_key'' (new_tx ())
       = Done () ((new_tx ())\<lparr>world := (world (new_tx ()))\<lparr>calls :=
           [Add_certificate (Stake_registration (From_keyhash ''aa'')) None]\<rparr>\<rparr>)"
    using a by (simp add: registerStake_def and_then_def tb_def demo_env_def demo_rejects_def
        new_tx_def)
  have w': "withdraw demo_env ''stake_key'' 5000000 None (new_tx ())
       = Done () ((new_tx ())\<lparr>world := (world (new_tx ()))\<lparr>calls :=
           [Add_withdrawal ''stake_key'' 5000000 None]\<rparr>\<rparr>)"
    unfolding w
    by (simp add: and_then_def decode_num_def redeemer_witness_def ret_def tb_def
        demo_env_def demo_num_ok_def demo_rejects_def new_tx_def)
  have b: "InvalidAddress Not_a_reward_address
      \<and> delegateTo demo_env ''addr_base'' ''pool1'' None (new_tx ())
          = Thrown Not_a_reward_address (new_tx ())
      \<and> registerStake demo_env ''addr_base'' (new_tx ()) = Thrown Not_a_reward_address (new_tx ())
      \<and> deregisterStake demo_env ''addr_base'' None (new_tx ())
          = Thrown Not_a_reward_address (new_tx ())
      \<and> InvalidAddress (External Address_kind ''expected instance of RewardAddress'')
      \<and> withdraw demo_env ''addr_base'' 5000000 None (new_tx ())
          = Thrown (External Address_kind ''expected instance of RewardAddress'') (new_tx ())"
    using B by (simp add: demo_stake_details)
  from a r w' b show ?thesis by blast
qed

subsection \<open>Pool registration\<close>










text \<open>With owners that all resolve to key hashes the same registration completes.\<close>

lemma demo_key_pool_completes:
  "\<exists>artifact t'. complete demo_env None (final (registerPool demo_env demo_key_pool (new_tx ())))
      = Some (Done artifact t')"
  by (simp add: complete_def opt_asHash_def opt_inline_def registerPool_def push_def
      drain_def drain_from.simps new_tx_def closure_def registerPool_task_def
      createPoolRegistration_def pool_owner_def reward_argument_def and_then_def decode_def
      decode_num_def ret_def
      throw_def tb_def await_def finalize_def opt_changeAddress_def coin_selection_enabled_def
      opt_coinSelection_def demo_key_pool_def demo_pool_def demo_env_def demo_details_def
      demo_rejects_def demo_decodes_def demo_num_ok_def)


subsection \<open>Utxos are objects of the caller\<close>

text \<open>
  The datum that \<open>readFrom\<close> looks up is written to the utxo: listed twice, the same
  object is looked up and its datum handed to the engine once, and it is a reference
  input twice, with its datum.
\<close>

lemma readFrom_same_object_twice:
  "for_each (readFrom_utxo demo_env) [0, 0] demo_holding =
     Done () (demo_holding\<lparr>world := (world demo_holding)
       \<lparr>calls := [Add_plutus_data ''d87980'',
                  Add_reference_input (demo_locked\<lparr>datum := Some ''d87980''\<rparr>),
                  Add_reference_input (demo_locked\<lparr>datum := Some ''d87980''\<rparr>)],
        io := [DatumOf demo_locked],
        objects := [demo_locked\<lparr>datum := Some ''d87980''\<rparr>]\<rparr>\<rparr>)"
  by (simp add: readFrom_utxo_def object_def set_datum_def and_then_def await_def decode_def
      utxoToCore_def ret_def tb_def demo_holding_def demo_locked_def new_tx_def demo_env_def
      demo_decodes_def demo_rejects_def)

lemma collectFrom_same_object_twice:
  "for_each (collectFrom_utxo demo_env (Some ''d87980'')) [0, 0] demo_holding =
     Done () (demo_holding\<lparr>world := (world demo_holding)
       \<lparr>calls := [Add_input (demo_locked\<lparr>datum := Some ''d87980''\<rparr>)
                    (W_witness (Plutus_witness ''d87980'' (Some ''d87980''))),
                  Add_input (demo_locked\<lparr>datum := Some ''d87980''\<rparr>)
                    (W_witness (Plutus_witness ''d87980'' (Some ''d87980'')))],
        io := [DatumOf demo_locked],
        objects := [demo_locked\<lparr>datum := Some ''d87980''\<rparr>]\<rparr>\<rparr>)"
  by (simp add: collectFrom_utxo_def object_def set_datum_def and_then_def await_def decode_def
      utxoToCore_def ret_def tb_def demo_holding_def demo_locked_def new_tx_def demo_env_def
      demo_decodes_def demo_rejects_def)

end
